theory Spec2Isabelle
  imports Main "HOL-Library.Word" "HOL-Library.Char_ord" "HOL-Library.List_Lexorder"
begin

section \<open>The Starlight agent (starlight/agent.go)\<close>

text \<open>
  A shallow embedding of the parts of \<^verbatim>\<open>starlight/agent.go\<close> that decide the
  properties below. Go strings are byte strings (\<^typ>\<open>string\<close>, compared bytewise and
  lexicographically, as Go's \<^verbatim>\<open><\<close> does); \<^verbatim>\<open>int64\<close>, \<^verbatim>\<open>uint64\<close> and \<^verbatim>\<open>xlm.Amount\<close>
  are \<^typ>\<open>64 word\<close>, with \<^const>\<open>sint\<close> where Go compares signed values. A Go \<^verbatim>\<open>error\<close>
  result is an \<^verbatim>\<open>error option\<close> (\<^const>\<open>None\<close> for \<^verbatim>\<open>nil\<close>) or the left summand of a
  sum. A \<^verbatim>\<open>db.Update\<close> transaction that returns an error is rolled back: the model
  returns the store it started from.
\<close>

subsection \<open>Errors\<close>

text \<open>
  The sentinel errors of package starlight that agent.go returns. \<open>errNew\<close> stands for an
  error made on the spot by \<^verbatim>\<open>errors.New\<close>, \<open>errExternal\<close> for an error handed back by
  a library or by the network.
\<close>

datatype errkind =
    errAlreadyConfigured | errNotConfigured | errInvalidPassword | errInvalidUsername
  | errInvalidInput | errInvalidEdit | errEmptyConfigEdit | errPasswordsDontMatch
  | errExists | errChannelExistsRetriable | errAgentClosing | errNotFunded
  | errEmptyAddress | errEmptyAmount | errAcctsSame | errInvalidAddress
  | errInsufficientBalance | errInvalidAsset | errNoChannelSpecified
  | ErrUnmarshaling | errInvalidChannelID | errFetchingAccounts
  | errRemoteGuestMessage | errBadRequest | errNew | errExternal

datatype error = Error (Root: errkind) (Text: string)

text \<open>\<^verbatim>\<open>errors.Wrap\<close> and \<^verbatim>\<open>errors.Wrapf\<close> keep the root of the error and prefix its text.\<close>

definition Wrap :: "error \<Rightarrow> string \<Rightarrow> error" where
  "Wrap e msg = Error (Root e) (msg @ '': '' @ Text e)"

text \<open>
  \<^verbatim>\<open>errors.Sub(root, err)\<close> has the root of \<open>root\<close> and the text of \<open>err\<close>
  (\<open>Sub1\<close>); by the package's documentation it is nil when \<open>err\<close> is nil (\<open>Sub\<close>).
\<close>

definition Sub1 :: "error \<Rightarrow> error \<Rightarrow> error" where
  "Sub1 r e = Error (Root r) (Text e)"

definition Sub :: "error \<Rightarrow> error option \<Rightarrow> error option" where
  "Sub r e = map_option (Sub1 r) e"

subsection \<open>Data\<close>

text \<open>
  Modelled from the spec: the types of package fsm are not part of the sources at hand.
  The roles and the states of a channel are those that agent.go and the spec name;
  \<open>NoRole\<close> and \<open>Start\<close> are the zero values.
\<close>

datatype Role = NoRole | Guest | Host

datatype State =
    Start | SettingUp | ChannelProposed | AwaitingFunding | PaymentChannel
  | AwaitingPaymentMerge | AwaitingClose | Closed | AwaitingCleanup
  | AwaitingRatchet | AwaitingSettlement | AwaitingSettlementMintime

text \<open>\<^verbatim>\<open>fsm.Channel\<close>, with the fields that agent.go reads or writes.\<close>

record Channel =
  ch_ID :: string
  ch_Role :: Role
  ch_State :: State
  ch_HostAmount :: "64 word"
  ch_CounterpartyAddress :: string
  ch_RemoteURL :: string
  ch_Passphrase :: string
  ch_MaxRoundDuration :: "64 word"
  ch_FinalityDelay :: "64 word"
  ch_ChannelFeerate :: "64 word"
  ch_HostFeerate :: "64 word"
  ch_FundingTime :: int
  ch_PaymentTime :: int
  ch_KeyIndex :: "32 word"
  ch_HostAcct :: string
  ch_GuestAcct :: string
  ch_EscrowAcct :: string
  ch_HostRatchetAcct :: string
  ch_GuestRatchetAcct :: string
  ch_RoundNumber :: "64 word"
  ch_GuestRatchetAcctSeqNum :: "64 word"
  ch_HostRatchetAcctSeqNum :: "64 word"
  ch_BaseSequenceNumber :: "64 word"
  ch_LastMsgIndex :: "64 word"

text \<open>The zero value of \<^verbatim>\<open>fsm.Channel\<close>: what the store hands back for an unknown ID.\<close>

definition zeroChannel :: Channel where
  "zeroChannel = \<lparr> ch_ID = [], ch_Role = NoRole, ch_State = Start, ch_HostAmount = 0,
     ch_CounterpartyAddress = [], ch_RemoteURL = [], ch_Passphrase = [],
     ch_MaxRoundDuration = 0, ch_FinalityDelay = 0, ch_ChannelFeerate = 0,
     ch_HostFeerate = 0, ch_FundingTime = 0, ch_PaymentTime = 0, ch_KeyIndex = 0,
     ch_HostAcct = [], ch_GuestAcct = [], ch_EscrowAcct = [], ch_HostRatchetAcct = [],
     ch_GuestRatchetAcct = [], ch_RoundNumber = 0, ch_GuestRatchetAcctSeqNum = 0,
     ch_HostRatchetAcctSeqNum = 0, ch_BaseSequenceNumber = 0, ch_LastMsgIndex = 0 \<rparr>"

text \<open>\<^verbatim>\<open>xdr.Asset\<close>: native, or a credit with its code and issuer.\<close>

datatype Asset = AssetNative | CreditAlphanum4 string string | CreditAlphanum12 string string

record Balance =
  bal_Asset :: Asset
  bal_Amount :: "64 word"
  bal_Pending :: bool
  bal_Authorized :: bool

definition zeroBalance :: Balance where
  "zeroBalance = \<lparr> bal_Asset = AssetNative, bal_Amount = 0, bal_Pending = False,
     bal_Authorized = False \<rparr>"

text \<open>\<^verbatim>\<open>fsm.WalletAcct\<close>.\<close>

record WalletAcct =
  NativeBalance :: "64 word"
  Reserve :: "64 word"
  Seqnum :: "64 word"
  Cursor :: string
  Address :: string
  Balances :: "string \<rightharpoonup> Balance"

definition zeroWallet :: WalletAcct where
  "zeroWallet = \<lparr> NativeBalance = 0, Reserve = 0, Seqnum = 0, Cursor = [], Address = [],
     Balances = Map.empty \<rparr>"

text \<open>The \<^verbatim>\<open>Config\<close> struct that \<^verbatim>\<open>ConfigInit\<close> and \<^verbatim>\<open>ConfigEdit\<close> receive.\<close>

record Config =
  Username :: string
  Password :: string
  HorizonURL :: string
  OldPassword :: string
  MaxRoundDurMins :: "64 word"
  FinalityDelayMins :: "64 word"
  ChannelFeerate :: "64 word"
  HostFeerate :: "64 word"
  KeepAlive :: "bool option"
  Public :: bool

text \<open>The zero value \<^verbatim>\<open>Config{}\<close>.\<close>

definition zeroConfig :: Config where
  "zeroConfig = \<lparr> Username = [], Password = [], HorizonURL = [], OldPassword = [],
     MaxRoundDurMins = 0, FinalityDelayMins = 0, ChannelFeerate = 0, HostFeerate = 0,
     KeepAlive = None, Public = False \<rparr>"

text \<open>The \<^verbatim>\<open>config\<close> bucket of the store.\<close>

record ConfigDB =
  cfg_Username :: string
  cfg_PwType :: string
  cfg_PwHash :: string
  cfg_HorizonURL :: string
  cfg_MaxRoundDurMins :: "64 word"
  cfg_FinalityDelayMins :: "64 word"
  cfg_ChannelFeerate :: "64 word"
  cfg_HostFeerate :: "64 word"
  cfg_KeepAlive :: bool
  cfg_Public :: bool

definition zeroConfigDB :: ConfigDB where
  "zeroConfigDB = \<lparr> cfg_Username = [], cfg_PwType = [], cfg_PwHash = [],
     cfg_HorizonURL = [], cfg_MaxRoundDurMins = 0, cfg_FinalityDelayMins = 0,
     cfg_ChannelFeerate = 0, cfg_HostFeerate = 0, cfg_KeepAlive = False,
     cfg_Public = False \<rparr>"

text \<open>Ledger operations and transactions, as \<^verbatim>\<open>watchWalletAcct\<close> reads them.\<close>

datatype AssetType = AssetTypeNative | AssetTypeCreditAlphanum4 | AssetTypeCreditAlphanum12

datatype OperationBody =
    CreateAccountOp string "64 word"
  | PaymentOp string Asset "64 word"
  | AccountMergeOp string
  | ChangeTrustOp Asset "64 word"
  | AllowTrustOp string AssetType string bool
  | OtherOp

record Operation =
  op_SourceAccount :: "string option"
  op_Body :: OperationBody

text \<open>
  A streamed transaction: \<open>tx_PT\<close> is its paging token, \<open>tx_Success\<close> says that its
  result code is \<^verbatim>\<open>TxSuccess\<close>, \<open>tx_MergeResults\<close> gives the source account balance
  in the result of the operation at an index, when that result is an account merge result.
\<close>

record Tx =
  tx_PT :: string
  tx_Ledger :: "32 word"
  tx_Success :: bool
  tx_SourceAccount :: string
  tx_Operations :: "Operation list"
  tx_MergeResults :: "(64 word) option list"

text \<open>Commands and peer messages (package fsm).\<close>

record Command =
  cmd_Name :: string
  cmd_Amount :: "64 word"
  cmd_Recipient :: string

record ChannelProposeMsg =
  prop_HostAcct :: string
  prop_GuestAcct :: string
  prop_HostRatchetAcct :: string
  prop_GuestRatchetAcct :: string
  prop_HostAmount :: "64 word"
  prop_MaxRoundDuration :: "64 word"
  prop_FinalityDelay :: "64 word"

record Message =
  msg_ChannelID :: string
  msg_MsgNum :: "64 word"
  msg_ChannelProposeMsg :: "ChannelProposeMsg option"

text \<open>Update records.\<close>

datatype UpdateType =
    InitType | ConfigType | AccountType | TxSuccessType | TxFailureType | WarningType
  | ChannelCmdType | ChannelMsgType | TimerType

record UpdateAccount =
  ua_ID :: string
  ua_Balance :: "64 word"
  ua_Balances :: "string \<rightharpoonup> Balance"
  ua_Reserve :: "64 word"

record Update =
  upd_Type :: UpdateType
  upd_Config :: "Config option"
  upd_Account :: "UpdateAccount option"
  upd_InputTx :: "Tx option"
  upd_OpIndex :: nat
  upd_InputCommand :: "Command option"
  upd_InputMessage :: "Message option"

text \<open>
  The message log of one channel (\<^verbatim>\<open>message.Message\<close>): the messages sent and the
  last sequence number given out.
\<close>

record MessageLog =
  LastSeqNum :: "64 word"
  Msgs :: "Message list"

text \<open>
  The \<^verbatim>\<open>agent\<close> bucket. The channels bucket is a list of (ID, channel) pairs in the
  order in which \<^verbatim>\<open>ForEach\<close> visits them.
\<close>

record AgentDB =
  db_Config :: ConfigDB
  db_Ready :: bool
  db_EncryptedSeed :: string
  db_NextKeypathIndex :: "32 word"
  db_PrimaryAcct :: string
  db_Wallet :: WalletAcct
  db_Channels :: "(string \<times> Channel) list"
  db_Messages :: "string \<rightharpoonup> MessageLog"
  db_Updates :: "Update list"

text \<open>The empty \<^verbatim>\<open>agent\<close> bucket: every read gives a zero value.\<close>

definition emptyAgentDB :: AgentDB where
  "emptyAgentDB = \<lparr> db_Config = zeroConfigDB, db_Ready = False, db_EncryptedSeed = [],
     db_NextKeypathIndex = 0, db_PrimaryAcct = [], db_Wallet = zeroWallet,
     db_Channels = [], db_Messages = Map.empty, db_Updates = [] \<rparr>"

text \<open>
  A task of the task basket: a signed envelope to submit for a channel or the wallet,
  or a message to deliver to a URL. The basket lives in the \<^verbatim>\<open>tasks\<close> bucket,
  beside the \<^verbatim>\<open>agent\<close> bucket.
\<close>

datatype Task = TbTx string string | TbMsg string Message

record Root =
  Agent :: AgentDB
  Tasks :: "Task list"

text \<open>
  The in-memory agent \<^verbatim>\<open>g\<close>: its seed (\<^const>\<open>None\<close> for nil), the Horizon URL of its
  client, the escrow accounts whose creation is awaited, and the store.
\<close>

record AgentG =
  seed :: "string option"
  wclient_URL :: string
  acctsReady :: "string list"
  store :: Root

subsection \<open>Store accessors\<close>

text \<open>
  Modelled from the spec: \<^verbatim>\<open>Channels().Get\<close> of package db, which is not part of the
  sources at hand. Channels are keyed by their ID; the accessor gives the stored
  channel, or a zero-valued channel for an unknown ID (its callers in agent.go read
  \<^verbatim>\<open>c.State\<close> and \<^verbatim>\<open>c.Role\<close> without a nil check).
\<close>

definition chans_Get :: "AgentDB \<Rightarrow> string \<Rightarrow> Channel" where
  "chans_Get a chanID = (case map_of (db_Channels a) chanID of None \<Rightarrow> zeroChannel | Some c \<Rightarrow> c)"

text \<open>
  Modelled from the spec: \<^verbatim>\<open>putUpdate\<close>, which is defined in another file. The updates
  are an append-only log, and every committed step appends one record.
\<close>

definition putUpdate :: "Update \<Rightarrow> Root \<Rightarrow> Root" where
  "putUpdate u root = root\<lparr> Agent := (Agent root)\<lparr> db_Updates := db_Updates (Agent root) @ [u] \<rparr> \<rparr>"

text \<open>
  Modelled from the spec: \<^verbatim>\<open>DeleteAgent\<close> of package db. It deletes every bucket
  under the \<^verbatim>\<open>agent\<close> root; the \<^verbatim>\<open>tasks\<close> bucket is beside that root and stays.
\<close>

definition DeleteAgent :: "Root \<Rightarrow> Root" where
  "DeleteAgent root = root\<lparr> Agent := emptyAgentDB \<rparr>"

text \<open>
  Modelled from the spec: \<^verbatim>\<open>PutReady\<close> and \<^verbatim>\<open>PutWallet\<close> of package db, which store
  the \<^verbatim>\<open>ready\<close> flag and the wallet in the \<^verbatim>\<open>agent\<close> bucket.
\<close>

definition PutReady :: "bool \<Rightarrow> Root \<Rightarrow> Root" where
  "PutReady b root = root\<lparr> Agent := (Agent root)\<lparr> db_Ready := b \<rparr> \<rparr>"

definition PutWallet :: "WalletAcct \<Rightarrow> Root \<Rightarrow> Root" where
  "PutWallet w root = root\<lparr> Agent := (Agent root)\<lparr> db_Wallet := w \<rparr> \<rparr>"

text \<open>\<^verbatim>\<open>isReadyConfigured\<close> and \<^verbatim>\<open>isReadyFunded\<close> of agent.go.\<close>

definition isReadyConfigured :: "Root \<Rightarrow> bool" where
  "isReadyConfigured root \<longleftrightarrow> cfg_HorizonURL (db_Config (Agent root)) \<noteq> []"

definition isReadyFunded :: "Root \<Rightarrow> bool" where
  "isReadyFunded root \<longleftrightarrow> 0 < sint (Seqnum (db_Wallet (Agent root)))"

subsection \<open>Channel uniqueness and conflicts between proposals\<close>

text \<open>
  \<^verbatim>\<open>checkChannelUnique\<close>: the first channel, in the order of the bucket, between the
  accounts \<open>a\<close> and \<open>b\<close> (in either order), with the error; the state of the channel
  is not looked at.
\<close>

fun checkChannelUnique_loop :: "(string \<times> Channel) list \<Rightarrow> string \<Rightarrow> string \<Rightarrow> string \<times> error option" where
  "checkChannelUnique_loop [] a b = ([], None)"
| "checkChannelUnique_loop ((curChanID, c) # rest) a b =
     (let p = ch_HostAcct c; q = ch_GuestAcct c in
      if (a = p \<and> b = q) \<or> (a = q \<and> b = p)
      then (curChanID, Some (Wrap (Error errExists []) (''between host '' @ p @ '' and guest '' @ q)))
      else checkChannelUnique_loop rest a b)"

definition checkChannelUnique :: "AgentG \<Rightarrow> string \<Rightarrow> string \<Rightarrow> string \<times> error option" where
  "checkChannelUnique g a b = checkChannelUnique_loop (db_Channels (Agent (store g))) a b"

text \<open>
  \<^verbatim>\<open>resolveChannelCreateConflict\<close>: the error it returns (it always returns one, so the
  transaction writes nothing), and the commands it starts in goroutines of their own.
\<close>

definition CleanUp :: Command where
  "CleanUp = \<lparr> cmd_Name = ''CleanUp'', cmd_Amount = 0, cmd_Recipient = [] \<rparr>"

definition resolveChannelCreateConflict ::
  "AgentG \<Rightarrow> string \<Rightarrow> ChannelProposeMsg \<Rightarrow> error \<times> (string \<times> Command) list" where
  "resolveChannelCreateConflict g chanID propose =
     (let root = store g in
      if \<not> db_Ready (Agent root) then (Error errAgentClosing [], [])
      else
        let proposedHostAddr = prop_HostAcct propose;
            proposedGuestAddr = prop_GuestAcct propose;
            c = chans_Get (Agent root) chanID;
            who = ''host '' @ proposedHostAddr @ '', guest '' @ proposedGuestAddr
        in case ch_State c of
             SettingUp \<Rightarrow>
               (Wrap (Error errChannelExistsRetriable []) (''setting up: '' @ who), [])
           | ChannelProposed \<Rightarrow>
               if sint (prop_HostAmount propose) < sint (ch_HostAmount c)
                  \<or> (prop_HostAmount propose = ch_HostAmount c \<and> proposedHostAddr < ch_HostAcct c)
               then (Wrap (Error errExists []) (''channel proposed: '' @ who), [])
               else (Wrap (Error errChannelExistsRetriable []) (''channel proposed: '' @ who),
                     [(chanID, CleanUp)])
           | AwaitingCleanup \<Rightarrow>
               (Wrap (Error errChannelExistsRetriable []) (''awaiting cleanup: '' @ who), [])
           | _ \<Rightarrow> (Wrap (Error errExists []) who, []))"

subsection \<open>The environment\<close>

text \<open>
  What the agent gets from outside agent.go: the network (Horizon, federation), the
  clock, randomness, the cryptographic libraries, and the functions of this package and
  of package fsm that live in other files. They are parameters of the model.
\<close>

record Env =
  ValidateTestnetURL :: "string \<Rightarrow> error option"
  randRead :: string
  DeriveAccountPrimary :: "string option \<Rightarrow> string"
  DeriveAccount :: "string option \<Rightarrow> 32 word \<Rightarrow> string"
  bcrypt_GenerateFromPassword :: "string \<Rightarrow> error + string"
  bcrypt_CompareHashAndPassword :: "string \<Rightarrow> string \<Rightarrow> error option"
  sealBox :: "string option \<Rightarrow> string \<Rightarrow> string"
  FindAccount :: "string \<Rightarrow> error + (string \<times> string)"
  SetAddress_ok :: "string \<Rightarrow> bool"
  Now :: int
  LoadAccount_AuthRequired :: "string \<Rightarrow> error + bool"
  SequenceForAccount :: "string \<Rightarrow> error + 64 word"
  signHomeDomainTx :: "string option \<Rightarrow> string \<Rightarrow> string \<Rightarrow> 64 word \<Rightarrow> 64 word \<Rightarrow> error + string"
  SetupAndFundingReserveAmount :: "Channel \<Rightarrow> 64 word"
  startChannel :: "Root \<Rightarrow> string \<Rightarrow> error option"
  taskbasket_NewTx :: "Root \<Rightarrow> error option"
  doUpdateChannel_Cmd :: "AgentG \<Rightarrow> Root \<Rightarrow> string \<Rightarrow> Command \<Rightarrow> error + Root"
  updateChannel_Msg :: "AgentG \<Rightarrow> string \<Rightarrow> (Root \<Rightarrow> Channel \<Rightarrow> error + Channel) \<Rightarrow> Message
                          \<Rightarrow> error option \<times> AgentG"
  message_From :: "MessageLog option \<Rightarrow> 64 word \<Rightarrow> 64 word \<Rightarrow> Message list"

subsection \<open>Constants\<close>

text \<open>Amounts are in stroops; a lumen is ten million stroops (package xlm).\<close>

definition Stroop :: "64 word" where "Stroop = 1"
definition Millilumen :: "64 word" where "Millilumen = 10000"
definition baseReserve :: "64 word" where "baseReserve = 500 * Millilumen"
definition defaultMaxRoundDurMins :: "64 word" where "defaultMaxRoundDurMins = 60"
definition defaultFinalityDelayMins :: "64 word" where "defaultFinalityDelayMins = 60"
definition defaultChannelFeerate :: "64 word" where "defaultChannelFeerate = 10 * Millilumen"
definition defaultHostFeerate :: "64 word" where "defaultHostFeerate = 100 * Stroop"
definition walletBucket :: string where "walletBucket = ''wallet''"
definition Minute :: "64 word" where "Minute = 60000000000"

subsection \<open>Starting the agent\<close>

text \<open>
  \<^verbatim>\<open>start\<close>: the goroutines it launches and the latch \<^verbatim>\<open>g.wallet\<close> that it closes
  are left out; what remains is the URL of the Horizon client, and the errors of
  \<^verbatim>\<open>startChannel\<close> and of the task basket.
\<close>

fun startChannels :: "Env \<Rightarrow> Root \<Rightarrow> string list \<Rightarrow> error option" where
  "startChannels env root [] = None"
| "startChannels env root (chanID # chanIDs) =
     (case startChannel env root chanID of
        Some e \<Rightarrow> Some e
      | None \<Rightarrow> startChannels env root chanIDs)"

definition start :: "Env \<Rightarrow> AgentG \<Rightarrow> Root \<Rightarrow> error option \<times> AgentG" where
  "start env g root =
     (if \<not> isReadyConfigured root then (None, g)
      else
        let g1 = g\<lparr> wclient_URL := cfg_HorizonURL (db_Config (Agent root)) \<rparr> in
        (case startChannels env root (map fst (db_Channels (Agent root))) of
           Some e \<Rightarrow> (Some e, g1)
         | None \<Rightarrow> (taskbasket_NewTx env root, g1)))"

subsection \<open>ConfigInit and ConfigEdit\<close>

text \<open>
  Modelled from the spec: \<^verbatim>\<open>validateUsername\<close> is defined in another file of the
  package; by the spec a user name is valid when it is printable and has no \<open>*\<close>.
\<close>

definition validateUsername :: "string \<Rightarrow> bool" where
  "validateUsername name \<longleftrightarrow>
     (\<forall>c \<in> set name. 32 \<le> (of_char c :: nat) \<and> (of_char c :: nat) < 127 \<and> c \<noteq> CHR ''*'')"

text \<open>The \<^verbatim>\<open>Config\<close> with the defaults that \<^verbatim>\<open>ConfigInit\<close> puts in for unset fields.\<close>

definition withDefaults :: "Config \<Rightarrow> Config" where
  "withDefaults c = c\<lparr>
     MaxRoundDurMins := (if MaxRoundDurMins c = 0 then defaultMaxRoundDurMins else MaxRoundDurMins c),
     FinalityDelayMins := (if FinalityDelayMins c = 0 then defaultFinalityDelayMins else FinalityDelayMins c),
     ChannelFeerate := (if ChannelFeerate c = 0 then defaultChannelFeerate else ChannelFeerate c),
     HostFeerate := (if HostFeerate c = 0 then defaultHostFeerate else HostFeerate c),
     KeepAlive := (case KeepAlive c of None \<Rightarrow> Some True | Some k \<Rightarrow> Some k) \<rparr>"

text \<open>The writes of \<^verbatim>\<open>ConfigInit\<close> once its checks have passed, up to the call of \<^verbatim>\<open>start\<close>.\<close>

definition ConfigInit_write :: "Env \<Rightarrow> string option \<Rightarrow> Config \<Rightarrow> string \<Rightarrow> string \<Rightarrow> string \<Rightarrow> Root \<Rightarrow> Root" where
  "ConfigInit_write env sd c hostURL digest primaryAcct root =
     (let c1 = withDefaults c;
          cfg = (db_Config (Agent root))\<lparr>
            cfg_Username := Username c, cfg_PwType := ''bcrypt'', cfg_PwHash := digest,
            cfg_HorizonURL := HorizonURL c,
            cfg_MaxRoundDurMins := MaxRoundDurMins c1,
            cfg_FinalityDelayMins := FinalityDelayMins c1,
            cfg_ChannelFeerate := ChannelFeerate c1,
            cfg_HostFeerate := HostFeerate c1,
            cfg_KeepAlive := (case KeepAlive c1 of None \<Rightarrow> True | Some k \<Rightarrow> k),
            cfg_Public := Public c \<rparr>;
          w = \<lparr> NativeBalance = 0, Reserve = 0, Seqnum = 0, Cursor = [],
                Address = Username c @ ''*'' @ hostURL, Balances = Map.empty \<rparr>;
          root1 = root\<lparr> Agent := (Agent root)\<lparr>
            db_Config := cfg, db_Ready := True,
            db_EncryptedSeed := sealBox env sd (Password c),
            db_NextKeypathIndex := 1, db_PrimaryAcct := primaryAcct, db_Wallet := w \<rparr> \<rparr>
      in putUpdate \<lparr> upd_Type = InitType,
            upd_Config = Some (zeroConfig\<lparr> Username := Username c, Password := ''[redacted]'',
               HorizonURL := HorizonURL c, MaxRoundDurMins := MaxRoundDurMins c1,
               FinalityDelayMins := FinalityDelayMins c1, ChannelFeerate := ChannelFeerate c1,
               HostFeerate := HostFeerate c1, KeepAlive := KeepAlive c1 \<rparr>),
            upd_Account = Some \<lparr> ua_ID = primaryAcct, ua_Balance = 0, ua_Balances = Map.empty,
               ua_Reserve = 0 \<rparr>,
            upd_InputTx = None, upd_OpIndex = 0, upd_InputCommand = None,
            upd_InputMessage = None \<rparr> root1)"

text \<open>
  \<^verbatim>\<open>ConfigInit\<close>: the error it returns and the agent afterwards. The seed is drawn
  inside the transaction, before the checks; it is a field of \<^verbatim>\<open>g\<close>, not of the
  store, so a failed transaction does not take it back.
\<close>

definition ConfigInit :: "Env \<Rightarrow> AgentG \<Rightarrow> Config \<Rightarrow> string \<Rightarrow> error option \<times> AgentG" where
  "ConfigInit env g c hostURL =
     (case ValidateTestnetURL env (HorizonURL c) of
        Some e \<Rightarrow> (Some e, g)
      | None \<Rightarrow>
          let root = store g in
          if isReadyConfigured root then (Some (Error errAlreadyConfigured []), g)
          else
            let g1 = g\<lparr> seed := Some (randRead env) \<rparr>;
                primaryAcct = DeriveAccountPrimary env (seed g1)
            in
            if length (Password c) > 72
              then (Some (Wrap (Error errInvalidPassword []) ''too long (max 72 chars)''), g1)
            else if Password c = []
              then (Some (Wrap (Error errInvalidPassword []) ''empty password''), g1)
            else if \<not> validateUsername (Username c)
              then (Some (Error errInvalidUsername []), g1)
            else if sint (MaxRoundDurMins c) < 0
              then (Some (Wrap (Error errInvalidInput []) ''negative max round duration''), g1)
            else if sint (FinalityDelayMins c) < 0
              then (Some (Wrap (Error errInvalidInput []) ''negative finality delay''), g1)
            else if sint (ChannelFeerate c) < 0
              then (Some (Wrap (Error errInvalidInput []) ''negative channel feerate''), g1)
            else if sint (HostFeerate c) < 0
              then (Some (Wrap (Error errInvalidInput []) ''negative host feerate''), g1)
            else
              (case bcrypt_GenerateFromPassword env (Password c) of
                 Inl e \<Rightarrow> (Some e, g1)
               | Inr digest \<Rightarrow>
                   let root1 = ConfigInit_write env (seed g1) c hostURL digest primaryAcct root;
                       g2 = g1\<lparr> wclient_URL := HorizonURL c \<rparr>
                   in (case start env g2 root1 of
                         (Some e, g3) \<Rightarrow> (Some e, g3)
                       | (None, g3) \<Rightarrow> (None, g3\<lparr> store := root1 \<rparr>))))"

text \<open>
  The password part of the transaction of \<^verbatim>\<open>ConfigEdit\<close>: \<^const>\<open>Inl\<close> is an early
  return (of nil when the stored password type is not bcrypt), \<^const>\<open>Inr\<close> the store
  to go on with.
\<close>

definition ConfigEdit_password :: "Env \<Rightarrow> AgentG \<Rightarrow> Config \<Rightarrow> Root \<Rightarrow> error option + Root" where
  "ConfigEdit_password env g c root =
     (if Password c \<noteq> [] then
        if cfg_PwType (db_Config (Agent root)) \<noteq> ''bcrypt'' then Inl None
        else
          case bcrypt_CompareHashAndPassword env (cfg_PwHash (db_Config (Agent root))) (OldPassword c) of
            Some e \<Rightarrow> Inl (Sub (Error errPasswordsDontMatch []) (Some e))
          | None \<Rightarrow>
              (case bcrypt_GenerateFromPassword env (Password c) of
                 Inl e \<Rightarrow> Inl (Some e)
               | Inr digest \<Rightarrow>
                   Inr (root\<lparr> Agent := (Agent root)\<lparr>
                     db_Config := (db_Config (Agent root))\<lparr> cfg_PwType := ''bcrypt'', cfg_PwHash := digest \<rparr>,
                     db_EncryptedSeed := sealBox env (seed g) (Password c) \<rparr> \<rparr>))
      else Inr root)"

text \<open>The other writes of the transaction of \<^verbatim>\<open>ConfigEdit\<close>, and its Update.\<close>

definition ConfigEdit_write :: "Config \<Rightarrow> Root \<Rightarrow> Root" where
  "ConfigEdit_write c root =
     (let cfg0 = db_Config (Agent root);
          cfg1 = (if HorizonURL c \<noteq> [] then cfg0\<lparr> cfg_HorizonURL := HorizonURL c \<rparr> else cfg0);
          cfg2 = (if MaxRoundDurMins c \<noteq> 0 then cfg1\<lparr> cfg_MaxRoundDurMins := MaxRoundDurMins c \<rparr> else cfg1);
          cfg3 = (if FinalityDelayMins c \<noteq> 0 then cfg2\<lparr> cfg_FinalityDelayMins := FinalityDelayMins c \<rparr> else cfg2);
          cfg4 = (if ChannelFeerate c \<noteq> 0 then cfg3\<lparr> cfg_ChannelFeerate := ChannelFeerate c \<rparr> else cfg3);
          cfg5 = (if HostFeerate c \<noteq> 0 then cfg4\<lparr> cfg_HostFeerate := HostFeerate c \<rparr> else cfg4)
      in putUpdate \<lparr> upd_Type = ConfigType,
            upd_Config = Some (zeroConfig\<lparr> Username := Username c, Password := ''[redacted]'',
               HorizonURL := HorizonURL c, MaxRoundDurMins := MaxRoundDurMins c,
               FinalityDelayMins := FinalityDelayMins c, ChannelFeerate := ChannelFeerate c,
               HostFeerate := HostFeerate c \<rparr>),
            upd_Account = None, upd_InputTx = None, upd_OpIndex = 0, upd_InputCommand = None,
            upd_InputMessage = None \<rparr>
           (root\<lparr> Agent := (Agent root)\<lparr> db_Config := cfg5 \<rparr> \<rparr>))"

definition ConfigEdit :: "Env \<Rightarrow> AgentG \<Rightarrow> Config \<Rightarrow> error option \<times> AgentG" where
  "ConfigEdit env g c =
     (if Username c \<noteq> [] \<or> KeepAlive c \<noteq> None then (Some (Error errInvalidEdit []), g)
      else if c\<lparr> OldPassword := [] \<rparr> = zeroConfig then (Some (Error errEmptyConfigEdit []), g)
      else if length (Password c) > 72
        then (Some (Wrap (Error errInvalidPassword []) ''too long (max 72 chars)''), g)
      else
        case (if HorizonURL c \<noteq> [] then ValidateTestnetURL env (HorizonURL c) else None) of
          Some e \<Rightarrow> (Some e, g)
        | None \<Rightarrow>
            if sint (MaxRoundDurMins c) < 0
              then (Some (Wrap (Error errInvalidInput []) ''negative max round duration''), g)
            else if sint (FinalityDelayMins c) < 0
              then (Some (Wrap (Error errInvalidInput []) ''negative finality delay''), g)
            else if sint (ChannelFeerate c) < 0
              then (Some (Wrap (Error errInvalidInput []) ''negative channel feerate''), g)
            else if sint (HostFeerate c) < 0
              then (Some (Wrap (Error errInvalidInput []) ''negative host feerate''), g)
            else
              let root = store g in
              if \<not> isReadyConfigured root then (Some (Error errNotConfigured []), g)
              else
                (case ConfigEdit_password env g c root of
                   Inl None \<Rightarrow> (None, g)
                 | Inl (Some e) \<Rightarrow> (Some e, g)
                 | Inr root1 \<Rightarrow>
                     (None, g\<lparr> wclient_URL := (if HorizonURL c \<noteq> [] then HorizonURL c else wclient_URL g),
                               store := ConfigEdit_write c root1 \<rparr>)))"

subsection \<open>DoCreateChannel\<close>

text \<open>
  Modelled from the spec: \<^verbatim>\<open>getChannel\<close>, which is defined in another file. A channel
  that is not in the store is in state \<^const>\<open>Start\<close>.
\<close>

definition getChannel :: "Root \<Rightarrow> string \<Rightarrow> Channel" where
  "getChannel root chanID = chans_Get (Agent root) chanID"

text \<open>
  Modelled from the spec: \<^verbatim>\<open>putChannel\<close>, which is defined in another file. Channels
  are stored under their ID, and the bucket is visited in the order of its keys.
\<close>

definition putChannel :: "string \<Rightarrow> Channel \<Rightarrow> Root \<Rightarrow> Root" where
  "putChannel chanID c root = root\<lparr> Agent := (Agent root)\<lparr> db_Channels :=
     insort_key fst (chanID, c) (filter (\<lambda>p. fst p \<noteq> chanID) (db_Channels (Agent root))) \<rparr> \<rparr>"

text \<open>
  Modelled from the spec: the task basket, which is a package of its own. \<^verbatim>\<open>addTxTask\<close>
  is in agent.go and hands the envelope to \<^verbatim>\<open>AddTx\<close> of the basket; a task added in
  a transaction is appended to the queue, and is there when the transaction commits.
\<close>

definition addTxTask :: "string \<Rightarrow> string \<Rightarrow> Root \<Rightarrow> Root" where
  "addTxTask chanID e root = root\<lparr> Tasks := Tasks root @ [TbTx chanID e] \<rparr>"

text \<open>\<^verbatim>\<open>nextChannelKeyIndex\<close>: the index read, and the store with the index bumped.\<close>

definition nextChannelKeyIndex :: "Root \<Rightarrow> 32 word \<Rightarrow> 32 word \<times> Root" where
  "nextChannelKeyIndex root bump =
     (let i = db_NextKeypathIndex (Agent root)
      in (i, root\<lparr> Agent := (Agent root)\<lparr> db_NextKeypathIndex := i + bump \<rparr> \<rparr>))"

text \<open>The network passphrase is that of the test network, whatever the store holds.\<close>

definition passphrase :: "Root \<Rightarrow> string" where
  "passphrase root = ''Test SDF Network ; September 2015''"

text \<open>The transaction of \<^verbatim>\<open>DoCreateChannel\<close>.\<close>

definition DoCreateChannel_tx ::
  "Env \<Rightarrow> AgentG \<Rightarrow> string \<Rightarrow> string \<Rightarrow> string \<Rightarrow> string \<Rightarrow> 64 word \<Rightarrow> error + (Channel \<times> Root)" where
  "DoCreateChannel_tx env g hostAcctStr guestAcctStr starlightURL guestFedAddr hostAmount =
     (let root = store g in
      if \<not> db_Ready (Agent root) then Inl (Error errAgentClosing [])
      else if \<not> isReadyFunded root then Inl (Error errNotFunded [])
      else
        let w0 = db_Wallet (Agent root);
            w = w0\<lparr> Seqnum := Seqnum w0 + 3 \<rparr>
        in
        if \<not> SetAddress_ok env guestAcctStr
          then Inl (Wrap (Error errInvalidAddress []) (''guest address'' @ guestAcctStr))
        else
          let (channelKeyIndex, root1) = nextChannelKeyIndex root 3;
              channelID = DeriveAccount env (seed g) channelKeyIndex;
              hostRatchet = DeriveAccount env (seed g) (channelKeyIndex + 1);
              guestRatchet = DeriveAccount env (seed g) (channelKeyIndex + 2)
          in
          if \<not> SetAddress_ok env channelID
            then Inl (Wrap (Error errExternal []) (''setting escrow address'' @ channelID))
          else if \<not> SetAddress_ok env hostRatchet
            then Inl (Wrap (Error errExternal []) (''setting host ratchet address'' @ hostRatchet))
          else if \<not> SetAddress_ok env guestRatchet
            then Inl (Wrap (Error errExternal []) (''setting guest ratchet address'' @ guestRatchet))
          else
            let fundingTime = Now env in
            if ch_State (getChannel root1 channelID) \<noteq> Start
              then Inl (Wrap (Error errExists []) channelID)
            else
              let ch = zeroChannel\<lparr>
                    ch_ID := channelID, ch_Role := Host, ch_HostAmount := hostAmount,
                    ch_CounterpartyAddress := guestFedAddr, ch_RemoteURL := starlightURL,
                    ch_Passphrase := passphrase root1,
                    ch_MaxRoundDuration := cfg_MaxRoundDurMins (db_Config (Agent root1)) * Minute,
                    ch_FinalityDelay := cfg_FinalityDelayMins (db_Config (Agent root1)) * Minute,
                    ch_ChannelFeerate := cfg_ChannelFeerate (db_Config (Agent root1)),
                    ch_HostFeerate := cfg_HostFeerate (db_Config (Agent root1)),
                    ch_FundingTime := fundingTime, ch_PaymentTime := fundingTime,
                    ch_KeyIndex := channelKeyIndex, ch_GuestAcct := guestAcctStr,
                    ch_EscrowAcct := channelID, ch_HostRatchetAcct := hostRatchet,
                    ch_GuestRatchetAcct := guestRatchet, ch_RoundNumber := 1 \<rparr>
              in
              if \<not> SetAddress_ok env hostAcctStr
                then Inl (Wrap (Error errExternal []) ''setting host address'')
              else
                let ch1 = ch\<lparr> ch_HostAcct := hostAcctStr \<rparr>;
                    newBalance = NativeBalance w - SetupAndFundingReserveAmount env ch1
                in
                if sint newBalance < 0
                  then Inl (Wrap (Error errInsufficientBalance []) ''balance'')
                else
                  let root2 = putChannel channelID ch1 root1;
                      root3 = PutWallet (w\<lparr> NativeBalance := newBalance \<rparr>) root2
                  in (case doUpdateChannel_Cmd env g root3 (ch_ID ch1)
                             \<lparr> cmd_Name = ''CreateChannel'', cmd_Amount = ch_HostAmount ch1,
                               cmd_Recipient = guestFedAddr \<rparr> of
                        Inl e \<Rightarrow> Inl e
                      | Inr root4 \<Rightarrow> Inr (ch1, root4)))"

text \<open>
  \<^verbatim>\<open>DoCreateChannel\<close>: the checks before the transaction, then the transaction, which
  is committed only when it returns no error.
\<close>

definition DoCreateChannel :: "Env \<Rightarrow> AgentG \<Rightarrow> string \<Rightarrow> 64 word \<Rightarrow> (error + Channel) \<times> AgentG" where
  "DoCreateChannel env g guestFedAddr hostAmount =
     (if guestFedAddr = [] then (Inl (Error errEmptyAddress []), g)
      else if hostAmount = 0 then (Inl (Error errEmptyAmount []), g)
      else
        let hostAcctStr = db_PrimaryAcct (Agent (store g)) in
        case FindAccount env guestFedAddr of
          Inl e \<Rightarrow> (Inl (Wrap e (''finding account '' @ guestFedAddr)), g)
        | Inr (guestAcctStr, starlightURL) \<Rightarrow>
            if guestAcctStr = hostAcctStr then (Inl (Error errAcctsSame []), g)
            else
              (case snd (checkChannelUnique g hostAcctStr guestAcctStr) of
                 Some e \<Rightarrow> (Inl e, g)
               | None \<Rightarrow>
                   (case DoCreateChannel_tx env g hostAcctStr guestAcctStr starlightURL guestFedAddr hostAmount of
                      Inl e \<Rightarrow> (Inl e, g)
                    | Inr (ch, root') \<Rightarrow> (Inr ch, g\<lparr> store := root' \<rparr>))))"

subsection \<open>Peer messages\<close>

definition channelRole :: "AgentG \<Rightarrow> string \<Rightarrow> Role" where
  "channelRole g chanID = ch_Role (chans_Get (Agent (store g)) chanID)"

text \<open>\<^verbatim>\<open>getSequenceNumbers\<close>: (base, guest, host), or the first error.\<close>

definition getSequenceNumbers ::
  "Env \<Rightarrow> string \<Rightarrow> string \<Rightarrow> string \<Rightarrow> error + (64 word \<times> 64 word \<times> 64 word)" where
  "getSequenceNumbers env chanID guestRatchetAcct hostRatchetAcct =
     (if \<not> SetAddress_ok env chanID then Inl (Error errExternal [])
      else
        case SequenceForAccount env chanID of
          Inl e \<Rightarrow> Inl e
        | Inr base \<Rightarrow>
            (case SequenceForAccount env guestRatchetAcct of
               Inl e \<Rightarrow> Inl e
             | Inr guest \<Rightarrow>
                 (case SequenceForAccount env hostRatchetAcct of
                    Inl e \<Rightarrow> Inl e
                  | Inr host \<Rightarrow> Inr (base, guest, host))))"

text \<open>
  What \<^verbatim>\<open>handleMsg\<close> has found out for a proposal before it enters the update: the
  escrow account, the three sequence numbers and the host's account.
\<close>

record ProposeContext =
  pc_escrowAcct :: string
  pc_baseSeqNum :: "64 word"
  pc_guestSeqNum :: "64 word"
  pc_hostSeqNum :: "64 word"
  pc_hostAccount :: string

definition zeroProposeContext :: ProposeContext where
  "zeroProposeContext = \<lparr> pc_escrowAcct = [], pc_baseSeqNum = 0, pc_guestSeqNum = 0,
     pc_hostSeqNum = 0, pc_hostAccount = [] \<rparr>"

text \<open>
  The function that \<^verbatim>\<open>handleMsg\<close> passes to \<^verbatim>\<open>updateChannel\<close>, up to its call of
  \<^verbatim>\<open>updater.Msg\<close>: the checks on a proposal and the fields it sets in the channel.
\<close>

definition handleMsg_prepare :: "Message \<Rightarrow> ProposeContext \<Rightarrow> Root \<Rightarrow> Channel \<Rightarrow> error + Channel" where
  "handleMsg_prepare m pc root C =
     (case msg_ChannelProposeMsg m of
        None \<Rightarrow> Inr C
      | Some propose \<Rightarrow>
          let maxRoundDur = Minute * cfg_MaxRoundDurMins (db_Config (Agent root));
              finalityDelay = Minute * cfg_FinalityDelayMins (db_Config (Agent root))
          in
          if prop_MaxRoundDuration propose \<noteq> maxRoundDur
            then Inl (Wrap (Error errBadRequest []) ''channel proposed with max round dur'')
          else if prop_FinalityDelay propose \<noteq> finalityDelay
            then Inl (Wrap (Error errBadRequest []) ''channel proposed with finality delay'')
          else Inr (C\<lparr>
            ch_CounterpartyAddress :=
              (if pc_hostAccount pc \<noteq> [] then pc_hostAccount pc else prop_HostAcct propose),
            ch_Role := Guest,
            ch_EscrowAcct := pc_escrowAcct pc,
            ch_HostAcct := prop_HostAcct propose,
            ch_GuestAcct := db_PrimaryAcct (Agent root),
            ch_GuestRatchetAcctSeqNum := pc_guestSeqNum pc,
            ch_HostRatchetAcctSeqNum := pc_hostSeqNum pc,
            ch_BaseSequenceNumber := pc_baseSeqNum pc \<rparr>))"

text \<open>
  The result of \<^verbatim>\<open>handleMsg\<close>: the error written to the response (\<^const>\<open>None\<close> when
  none is), the agent afterwards, the commands started in goroutines of their own, and
  whether the message went to \<^verbatim>\<open>updateChannel\<close>, that is to the state machine.
\<close>

record HandleResult =
  hr_error :: "error option"
  hr_agent :: AgentG
  hr_spawned :: "(string \<times> Command) list"
  hr_updated :: bool

text \<open>The end of \<^verbatim>\<open>handleMsg\<close>: the check of the role, then the update.\<close>

definition handleMsg_update :: "Env \<Rightarrow> AgentG \<Rightarrow> Message \<Rightarrow> ProposeContext \<Rightarrow> HandleResult" where
  "handleMsg_update env g m pc =
     (if channelRole g (msg_ChannelID m) = Host
        then \<lparr> hr_error = Some (Error errRemoteGuestMessage []), hr_agent = g,
               hr_spawned = [], hr_updated = False \<rparr>
      else
        let (err, g') = updateChannel_Msg env g (msg_ChannelID m) (handleMsg_prepare m pc) m
        in \<lparr> hr_error = err, hr_agent = g', hr_spawned = [], hr_updated = True \<rparr>)"

text \<open>\<^verbatim>\<open>handleMsg\<close>, from the decoded body of the request.\<close>

definition handleMsg :: "Env \<Rightarrow> AgentG \<Rightarrow> error + Message \<Rightarrow> HandleResult" where
  "handleMsg env g body =
     (case body of
        Inl e \<Rightarrow> \<lparr> hr_error = Sub (Error ErrUnmarshaling []) (Some e), hr_agent = g,
                   hr_spawned = [], hr_updated = False \<rparr>
      | Inr m \<Rightarrow>
          if length (msg_ChannelID m) = 0
            then \<lparr> hr_error = Sub (Error errNoChannelSpecified []) None, hr_agent = g,
                   hr_spawned = [], hr_updated = False \<rparr>
          else
            (case msg_ChannelProposeMsg m of
               None \<Rightarrow> handleMsg_update env g m zeroProposeContext
             | Some propose \<Rightarrow>
                 (case checkChannelUnique g (prop_HostAcct propose) (prop_GuestAcct propose) of
                    (chanID, Some _) \<Rightarrow>
                      let (err, spawned) = resolveChannelCreateConflict g chanID propose
                      in \<lparr> hr_error = Some err, hr_agent = g, hr_spawned = spawned,
                           hr_updated = False \<rparr>
                  | (_, None) \<Rightarrow>
                      if \<not> SetAddress_ok env (msg_ChannelID m)
                        then \<lparr> hr_error = Some (Error errInvalidChannelID []), hr_agent = g,
                               hr_spawned = [], hr_updated = False \<rparr>
                      else
                        (case getSequenceNumbers env (msg_ChannelID m)
                                (prop_GuestRatchetAcct propose) (prop_HostRatchetAcct propose) of
                           Inl e \<Rightarrow> \<lparr> hr_error = Sub (Error errFetchingAccounts []) (Some e),
                                      hr_agent = g, hr_spawned = [], hr_updated = False \<rparr>
                         | Inr (baseSeqNum, guestSeqNum, hostSeqNum) \<Rightarrow>
                             let hostAccount =
                                   (case FindAccount env (prop_HostAcct propose) of
                                      Inl _ \<Rightarrow> []
                                    | Inr (a, _) \<Rightarrow> a)
                             in handleMsg_update env g m
                                  \<lparr> pc_escrowAcct = msg_ChannelID m, pc_baseSeqNum = baseSeqNum,
                                    pc_guestSeqNum = guestSeqNum, pc_hostSeqNum = hostSeqNum,
                                    pc_hostAccount = hostAccount \<rparr>))))"

subsection \<open>Messages\<close>

text \<open>
  Modelled from the spec: the method \<^verbatim>\<open>Add\<close> of \<^verbatim>\<open>message.Message\<close>, which is defined
  in another package. By the spec the messages of a channel get sequence numbers that
  increase without gaps, so \<^verbatim>\<open>Add\<close> gives a message the next number and appends it.
\<close>

definition Add :: "Message \<Rightarrow> MessageLog \<Rightarrow> Message \<times> MessageLog" where
  "Add msg l =
     (let n = LastSeqNum l + 1; msg' = msg\<lparr> msg_MsgNum := n \<rparr>
      in (msg', \<lparr> LastSeqNum = n, Msgs = Msgs l @ [msg'] \<rparr>))"

text \<open>
  A write transaction as \<^verbatim>\<open>putMessage\<close> sees it: the store, and the functions that have
  been registered with \<^verbatim>\<open>OnCommit\<close>, in the order of their registration. The only
  function that agent.go registers there for messages is the broadcast on the condition
  variable \<^verbatim>\<open>evcond\<close>.
\<close>

datatype Hook = Broadcast

type_synonym WriteTx = "Root \<times> Hook list"

text \<open>
  \<^verbatim>\<open>putMessage\<close>: the message with its number, and the transaction with the message
  logged and the broadcast registered for the commit.
\<close>

definition putMessage :: "Channel \<Rightarrow> Message \<Rightarrow> WriteTx \<Rightarrow> Message \<times> WriteTx" where
  "putMessage c msg tx =
     (let root = fst tx;
          m = (case db_Messages (Agent root) (ch_ID c) of
                 None \<Rightarrow> \<lparr> LastSeqNum = 0, Msgs = [] \<rparr>
               | Some l \<Rightarrow> l);
          (msg', m') = Add msg m
      in (msg', (root\<lparr> Agent := (Agent root)\<lparr>
                   db_Messages := (db_Messages (Agent root))(ch_ID c \<mapsto> m') \<rparr> \<rparr>,
                 snd tx @ [Broadcast])))"

text \<open>
  \<^verbatim>\<open>addMsgTask\<close>: a guest logs the message, for the host to fetch, and notes its number
  in the channel; a host hands the message to the task basket.
\<close>

definition addMsgTask :: "Channel \<Rightarrow> Message \<Rightarrow> WriteTx \<Rightarrow> error option \<times> WriteTx" where
  "addMsgTask c msg tx =
     (if ch_Role c = Guest then
        let (msg', (root1, hooks1)) = putMessage c msg tx;
            c' = c\<lparr> ch_LastMsgIndex := msg_MsgNum msg' \<rparr>
        in (None, (putChannel (ch_ID c') c' root1, hooks1))
      else (None, ((fst tx)\<lparr> Tasks := Tasks (fst tx) @ [TbMsg (ch_RemoteURL c) msg] \<rparr>, snd tx)))"

text \<open>
  Modelled from the spec: \<^verbatim>\<open>db.Update\<close> of package db, which is not part of the sources
  at hand. By the spec the write transaction is the point of serialization, a
  transaction that fails leaves no change, and the functions registered with
  \<^verbatim>\<open>OnCommit\<close> run after the commit. The result is the error, the agent afterwards,
  and what happened, in order: the commit of a store, then the run of each function.
\<close>

datatype Event = Commit Root | Run Hook

definition db_Update :: "(WriteTx \<Rightarrow> error option \<times> WriteTx) \<Rightarrow> AgentG \<Rightarrow> error option \<times> AgentG \<times> Event list" where
  "db_Update f g =
     (case f (store g, []) of
        (Some e, _) \<Rightarrow> (Some e, g, [])
      | (None, (root', hooks)) \<Rightarrow> (None, g\<lparr> store := root' \<rparr>, Commit root' # map Run hooks))"

text \<open>
  \<^verbatim>\<open>Messages\<close> appends what \<^verbatim>\<open>From\<close> gives for the log of the channel, which is nil
  for a channel without a log. \<^verbatim>\<open>From\<close> is a method of package message, which is not
  part of the sources at hand, and is a parameter here.
\<close>

definition Messages :: "Env \<Rightarrow> AgentG \<Rightarrow> string \<Rightarrow> 64 word \<Rightarrow> 64 word \<Rightarrow> Message list" where
  "Messages env g chanID a b = [] @ message_From env (db_Messages (Agent (store g)) chanID) a b"

text \<open>\<^verbatim>\<open>lastMsgNum\<close> reads the committed store: 0 for a channel without a log.\<close>

definition lastMsgNum :: "AgentG \<Rightarrow> string \<Rightarrow> 64 word" where
  "lastMsgNum g chanID =
     (case db_Messages (Agent (store g)) chanID of None \<Rightarrow> 0 | Some m \<Rightarrow> LastSeqNum m)"

text \<open>
  \<^verbatim>\<open>WaitMsg\<close>. Each time the loop tests its condition it reads the committed store
  and the context; the first argument lists what it finds there, test after test: the
  agent with the store as committed, and whether the context has been cancelled. The
  first test is made at the call, each later one after a wake-up from \<^verbatim>\<open>Wait\<close>. The
  result is what the test that ended the loop found, or \<^const>\<open>None\<close> when the loop is
  still waiting after the last of the listed tests.
\<close>

fun WaitMsg :: "(AgentG \<times> bool) list \<Rightarrow> string \<Rightarrow> 64 word \<Rightarrow> (AgentG \<times> bool) option" where
  "WaitMsg [] chanID i = None"
| "WaitMsg ((g, cancelled) # later) chanID i =
     (if lastMsgNum g chanID < i \<and> \<not> cancelled then WaitMsg later chanID i
      else Some (g, cancelled))"

subsection \<open>The wallet watcher\<close>

text \<open>
  An asset code is an array of 4 or of 12 bytes. \<open>codeArray n code\<close> is the array as a
  string, which is what the conversion \<^verbatim>\<open>string(AssetCode[:])\<close> gives: the code, filled
  with zero bytes to the length \<open>n\<close>. \<open>trimZero\<close> takes the zero bytes at the end away,
  as \<^verbatim>\<open>String\<close> of \<^verbatim>\<open>xdr.Asset\<close> does.
\<close>

definition codeArray :: "nat \<Rightarrow> string \<Rightarrow> string" where
  "codeArray n code = take n (code @ replicate n (CHR 0x00))"

definition trimZero :: "string \<Rightarrow> string" where
  "trimZero s = rev (dropWhile (\<lambda>c. c = CHR 0x00) (rev s))"

text \<open>
  \<^verbatim>\<open>SetCredit\<close> and \<^verbatim>\<open>String\<close> of \<^verbatim>\<open>xdr.Asset\<close>: a code of one to four bytes makes
  an alphanum-4 credit, one of five to twelve bytes an alphanum-12 credit, any other
  length is an error; the string of a credit is its type, its code without the zero
  bytes at the end, and its issuer.
\<close>

definition SetCredit :: "string \<Rightarrow> string \<Rightarrow> error + Asset" where
  "SetCredit code issuer =
     (if 1 \<le> length code \<and> length code \<le> 4 then Inr (CreditAlphanum4 code issuer)
      else if 5 \<le> length code \<and> length code \<le> 12 then Inr (CreditAlphanum12 code issuer)
      else Inl (Error errExternal ''Asset code length is invalid''))"

fun Asset_String :: "Asset \<Rightarrow> string" where
  "Asset_String AssetNative = ''native''"
| "Asset_String (CreditAlphanum4 code issuer) =
     ''credit_alphanum4/'' @ trimZero (codeArray 4 code) @ ''/'' @ issuer"
| "Asset_String (CreditAlphanum12 code issuer) =
     ''credit_alphanum12/'' @ trimZero (codeArray 12 code) @ ''/'' @ issuer"

text \<open>The Account update that the watcher publishes for the operation at \<open>index\<close>.\<close>

definition accountUpdate :: "string \<Rightarrow> WalletAcct \<Rightarrow> bool \<Rightarrow> Tx \<Rightarrow> nat \<Rightarrow> Update" where
  "accountUpdate acctID w withReserve htx index =
     \<lparr> upd_Type = AccountType, upd_Config = None,
       upd_Account = Some \<lparr> ua_ID = acctID, ua_Balance = NativeBalance w,
          ua_Balances = Balances w, ua_Reserve = (if withReserve then Reserve w else 0) \<rparr>,
       upd_InputTx = Some htx, upd_OpIndex = index, upd_InputCommand = None,
       upd_InputMessage = None \<rparr>"

text \<open>The Update that tells that the agent has been reset: balance 0, nothing else.\<close>

definition resetUpdate :: "string \<Rightarrow> Tx \<Rightarrow> nat \<Rightarrow> Update" where
  "resetUpdate acctID htx index =
     \<lparr> upd_Type = AccountType, upd_Config = None,
       upd_Account = Some \<lparr> ua_ID = acctID, ua_Balance = 0, ua_Balances = Map.empty,
          ua_Reserve = 0 \<rparr>,
       upd_InputTx = Some htx, upd_OpIndex = index, upd_InputCommand = None,
       upd_InputMessage = None \<rparr>"

text \<open>The address of an optional source account: empty for nil.\<close>

definition Address_of :: "string option \<Rightarrow> string" where
  "Address_of a = (case a of None \<Rightarrow> [] | Some x \<Rightarrow> x)"

text \<open>The home domain of a wallet address: what follows its first \<open>*\<close>.\<close>

definition homeDomain :: "string \<Rightarrow> string" where
  "homeDomain addr =
     (case dropWhile (\<lambda>c. c \<noteq> CHR ''*'') addr of [] \<Rightarrow> addr | _ # rest \<Rightarrow> rest)"

text \<open>
  What the function that the watcher runs in its write transaction comes to: it returns
  nil, with the store to commit; it returns an error, and the transaction is rolled
  back; or it panics, which nothing recovers.
\<close>

datatype 'a TxResult = Returns 'a | Fails error | Panics

text \<open>
  The body of the loop over the operations of a transaction. The first component of the
  result is the list of awaited escrow accounts, which is in memory and stays as it is
  when the transaction fails; the second is the store to go on with (unchanged where the
  code says \<^verbatim>\<open>continue\<close>), or the error returned, or the panic.
\<close>

definition walletOp_CreateAccount ::
  "Env \<Rightarrow> string option \<Rightarrow> string \<Rightarrow> Tx \<Rightarrow> nat \<Rightarrow> string \<Rightarrow> 64 word \<Rightarrow> string list \<Rightarrow> Root
     \<Rightarrow> string list \<times> Root TxResult" where
  "walletOp_CreateAccount env sd acctID htx index createAccountAddr startingBalance latches root =
     (let latches' = removeAll createAccountAddr latches in
      if createAccountAddr \<noteq> acctID then (latches', Returns root)
      else
        let seqnum = push_bit 32 (scast (tx_Ledger htx) :: 64 word);
            hostFeerate = cfg_HostFeerate (db_Config (Agent root));
            w = (db_Wallet (Agent root))\<lparr>
                  NativeBalance := startingBalance - hostFeerate - 2 * baseReserve,
                  Reserve := 2 * baseReserve, Seqnum := seqnum, Cursor := tx_PT htx \<rparr>;
            root1 = putUpdate (accountUpdate acctID w True htx index) (PutWallet w root)
        in
        if cfg_Public (db_Config (Agent root1)) then
          (case signHomeDomainTx env sd acctID (homeDomain (Address w)) hostFeerate (Seqnum w + 1) of
             Inl e \<Rightarrow> (latches', Fails e)
           | Inr e \<Rightarrow> (latches', Returns (addTxTask walletBucket e root1)))
        else (latches', Returns root1))"

text \<open>
  In the payment and allow-trust cases the code declares \<^verbatim>\<open>currBalance\<close> twice: the
  balance it computes is that of the \<^verbatim>\<open>if\<close> statement, the one it stores is the outer
  one, which is still the zero value.
\<close>

definition walletOp_Payment ::
  "string \<Rightarrow> Tx \<Rightarrow> nat \<Rightarrow> string \<Rightarrow> Asset \<Rightarrow> 64 word \<Rightarrow> Root \<Rightarrow> Root TxResult" where
  "walletOp_Payment acctID htx index dest passet amount root =
     (if dest \<noteq> acctID then Returns root
      else
        let w = db_Wallet (Agent root);
            finish = (\<lambda>asset w1.
              let w2 = (if asset \<noteq> AssetNative
                        then w1\<lparr> Balances := (Balances w1)(Asset_String asset \<mapsto> zeroBalance) \<rparr>
                        else w1);
                  w3 = w2\<lparr> Cursor := tx_PT htx \<rparr>
              in Returns (putUpdate (accountUpdate acctID w3 True htx index) (PutWallet w3 root)))
        in case passet of
             AssetNative \<Rightarrow> finish AssetNative (w\<lparr> NativeBalance := NativeBalance w + amount \<rparr>)
           | CreditAlphanum4 code issuer \<Rightarrow>
               if issuer = acctID then Returns root
               else (case SetCredit (codeArray 4 code) issuer of
                       Inl e \<Rightarrow> Fails (Sub1 e (Error errInvalidAsset []))
                     | Inr asset \<Rightarrow> finish asset w)
           | CreditAlphanum12 code issuer \<Rightarrow>
               if issuer = acctID then Returns root
               else (case SetCredit (codeArray 12 code) issuer of
                       Inl e \<Rightarrow> Fails (Sub1 e (Error errInvalidAsset []))
                     | Inr asset \<Rightarrow> finish asset w))"

text \<open>
  The merge: the code tests the source account of the operation itself, which is nil
  when the operation takes its source from the transaction. Reading the result of the
  merge panics when the result is not there.
\<close>

definition walletOp_AccountMerge ::
  "string \<Rightarrow> Tx \<Rightarrow> nat \<Rightarrow> string option \<Rightarrow> string \<Rightarrow> Root \<Rightarrow> Root TxResult" where
  "walletOp_AccountMerge acctID htx index opSource dest root =
     (let root1 = (if Address_of opSource = acctID
                   then PutReady True (putUpdate (resetUpdate acctID htx index) (DeleteAgent root))
                   else root)
      in
      if dest = acctID then
        (if index < length (tx_MergeResults htx) then
           (case tx_MergeResults htx ! index of
              None \<Rightarrow> Panics
            | Some mergeAmount \<Rightarrow>
                let w0 = db_Wallet (Agent root1);
                    w = w0\<lparr> NativeBalance := NativeBalance w0 + mergeAmount, Cursor := tx_PT htx \<rparr>
                in Returns (putUpdate (accountUpdate acctID w True htx index) (PutWallet w root1)))
         else Panics)
      else Returns root1)"

definition walletOp_ChangeTrust ::
  "Env \<Rightarrow> string \<Rightarrow> Tx \<Rightarrow> nat \<Rightarrow> string option \<Rightarrow> Asset \<Rightarrow> 64 word \<Rightarrow> Root \<Rightarrow> Root TxResult" where
  "walletOp_ChangeTrust env acctID htx index opSource line limit root =
     (let w = db_Wallet (Agent root);
          finish = (\<lambda>w1. Returns (putUpdate (accountUpdate acctID w1 True htx index) (PutWallet w1 root)));
          addAsset = (\<lambda>issuer.
            case LoadAccount_AuthRequired env issuer of
              Inl e \<Rightarrow> Fails (Wrap e ''getting issuer auth requirement'')
            | Inr authRequired \<Rightarrow>
                finish (w\<lparr> Balances := (Balances w)(Asset_String line \<mapsto>
                  \<lparr> bal_Asset = line, bal_Amount = 0, bal_Pending = False,
                    bal_Authorized = \<not> authRequired \<rparr>) \<rparr>))
      in
      if Address_of opSource \<noteq> Address w then Returns root
      else if limit = 0 then
        finish (w\<lparr> Balances := (Balances w)(Asset_String line := None),
                   NativeBalance := NativeBalance w + baseReserve,
                   Reserve := Reserve w - baseReserve \<rparr>)
      else
        (case line of
           AssetNative \<Rightarrow> Fails (Error errNew ''native trustline not allowed'')
         | CreditAlphanum4 code issuer \<Rightarrow> addAsset issuer
         | CreditAlphanum12 code issuer \<Rightarrow> addAsset issuer))"

text \<open>
  The allow-trust case: the code of the asset is the whole array of the declared type,
  so that \<^verbatim>\<open>SetCredit\<close> makes a credit of that type; the issuer is the source account
  of the operation, and the code panics when the operation has none of its own.
\<close>

definition walletOp_AllowTrust ::
  "string \<Rightarrow> Tx \<Rightarrow> nat \<Rightarrow> string option \<Rightarrow> string \<Rightarrow> AssetType \<Rightarrow> string \<Rightarrow> bool \<Rightarrow> Root
     \<Rightarrow> Root TxResult" where
  "walletOp_AllowTrust acctID htx index opSource trustor atype assetCode authorize root =
     (if trustor \<noteq> acctID then Returns root
      else
        let credit = (\<lambda>n.
          case opSource of
            None \<Rightarrow> Panics
          | Some src \<Rightarrow>
              (case SetCredit (codeArray n assetCode) src of
                 Inl e \<Rightarrow> Fails (Sub1 e (Error errInvalidAsset []))
               | Inr asset \<Rightarrow>
                   let w0 = db_Wallet (Agent root);
                       w = w0\<lparr> Balances := (Balances w0)(Asset_String asset \<mapsto> zeroBalance) \<rparr>
                   in Returns (putUpdate (accountUpdate acctID w False htx index) (PutWallet w root))))
        in case atype of
             AssetTypeCreditAlphanum4 \<Rightarrow> credit 4
           | AssetTypeCreditAlphanum12 \<Rightarrow> credit 12
           | AssetTypeNative \<Rightarrow> Fails (Error errNew ''no native trustline allowed''))"

definition walletOp ::
  "Env \<Rightarrow> string option \<Rightarrow> string \<Rightarrow> Tx \<Rightarrow> nat \<Rightarrow> Operation \<Rightarrow> string list \<Rightarrow> Root
     \<Rightarrow> string list \<times> Root TxResult" where
  "walletOp env sd acctID htx index op latches root =
     (case op_Body op of
        CreateAccountOp dest startingBalance \<Rightarrow>
          walletOp_CreateAccount env sd acctID htx index dest startingBalance latches root
      | PaymentOp dest passet amount \<Rightarrow>
          (latches, walletOp_Payment acctID htx index dest passet amount root)
      | AccountMergeOp dest \<Rightarrow>
          (latches, walletOp_AccountMerge acctID htx index (op_SourceAccount op) dest root)
      | ChangeTrustOp line limit \<Rightarrow>
          (latches, walletOp_ChangeTrust env acctID htx index (op_SourceAccount op) line limit root)
      | AllowTrustOp trustor atype assetCode authorize \<Rightarrow>
          (latches, walletOp_AllowTrust acctID htx index (op_SourceAccount op) trustor atype
                      assetCode authorize root)
      | OtherOp \<Rightarrow> (latches, Returns root))"

text \<open>
  The loop over the operations, from index \<open>index\<close> on; it stops at the first error or
  panic.
\<close>

fun walletOps ::
  "Env \<Rightarrow> string option \<Rightarrow> string \<Rightarrow> Tx \<Rightarrow> nat \<Rightarrow> Operation list \<Rightarrow> string list \<Rightarrow> Root
     \<Rightarrow> string list \<times> Root TxResult" where
  "walletOps env sd acctID htx index [] latches root = (latches, Returns root)"
| "walletOps env sd acctID htx index (op # ops) latches root =
     (case walletOp env sd acctID htx index op latches root of
        (latches', Returns root') \<Rightarrow> walletOps env sd acctID htx (Suc index) ops latches' root'
      | (latches', Fails e) \<Rightarrow> (latches', Fails e)
      | (latches', Panics) \<Rightarrow> (latches', Panics))"

text \<open>
  What the transaction does before the loop: for a transaction that the watched account
  has sent, it moves the cursor and logs the success.
\<close>

definition watchWalletAcct_begin :: "string \<Rightarrow> Tx \<Rightarrow> Root \<Rightarrow> Root" where
  "watchWalletAcct_begin acctID htx root =
     (if tx_SourceAccount htx = acctID then
        putUpdate \<lparr> upd_Type = TxSuccessType, upd_Config = None, upd_Account = None,
                    upd_InputTx = Some htx, upd_OpIndex = 0, upd_InputCommand = None,
                    upd_InputMessage = None \<rparr>
          (PutWallet ((db_Wallet (Agent root))\<lparr> Cursor := tx_PT htx \<rparr>) root)
      else root)"

text \<open>The transaction that the watcher runs for a successful ledger transaction.\<close>

definition watchWalletAcct_tx ::
  "Env \<Rightarrow> string option \<Rightarrow> string \<Rightarrow> Tx \<Rightarrow> string list \<Rightarrow> Root \<Rightarrow> string list \<times> Root TxResult" where
  "watchWalletAcct_tx env sd acctID htx latches root =
     walletOps env sd acctID htx 0 (tx_Operations htx) latches (watchWalletAcct_begin acctID htx root)"

text \<open>
  The callback that \<^verbatim>\<open>watchWalletAcct\<close> gives to \<^verbatim>\<open>StreamTxs\<close>, from the result of
  \<^verbatim>\<open>worizon.NewTx\<close>: what it returns and the agent afterwards. Failed ledger
  transactions are ignored; the error of the transaction on the store is dropped, and
  the store is then as it was. \<^const>\<open>None\<close> means that the callback does not return:
  a panic in the transaction is not recovered, and ends the process with the store as
  it was.
\<close>

definition watchWalletAcct_onTx ::
  "Env \<Rightarrow> string \<Rightarrow> AgentG \<Rightarrow> error + Tx \<Rightarrow> (error option \<times> AgentG) option" where
  "watchWalletAcct_onTx env acctID g parsed =
     (case parsed of
        Inl e \<Rightarrow> Some (Some e, g)
      | Inr htx \<Rightarrow>
          if \<not> tx_Success htx then Some (None, g)
          else
            (case watchWalletAcct_tx env (seed g) acctID htx (acctsReady g) (store g) of
               (latches, Returns root') \<Rightarrow> Some (None, g\<lparr> acctsReady := latches, store := root' \<rparr>)
             | (latches, Fails e) \<Rightarrow> Some (None, g\<lparr> acctsReady := latches \<rparr>)
             | (latches, Panics) \<Rightarrow> None))"

subsection \<open>Example agents, messages and transactions\<close>

text \<open>An environment in which every outside call succeeds and \<open>bob*h\<close> resolves to \<open>GB\<close>.\<close>

definition exEnv :: Env where
  "exEnv = \<lparr>
     ValidateTestnetURL = (\<lambda>_. None),
     randRead = replicate 32 (CHR ''r''),
     DeriveAccountPrimary = (\<lambda>_. ''GA''),
     DeriveAccount = (\<lambda>_ _. ''GE''),
     bcrypt_GenerateFromPassword = (\<lambda>pw. Inr (''hash:'' @ pw)),
     bcrypt_CompareHashAndPassword = (\<lambda>h pw. if h = ''hash:'' @ pw then None else Some (Error errExternal [])),
     sealBox = (\<lambda>_ _. ''sealed''),
     FindAccount = (\<lambda>a. if a = ''bob*h'' then Inr (''GB'', ''https://h'')
                        else if a = ''alice*h'' then Inr (''GA'', ''https://h'')
                        else Inl (Error errExternal [])),
     SetAddress_ok = (\<lambda>_. True),
     Now = 0,
     LoadAccount_AuthRequired = (\<lambda>_. Inr False),
     SequenceForAccount = (\<lambda>_. Inr 1),
     signHomeDomainTx = (\<lambda>_ _ _ _ _. Inr ''env''),
     SetupAndFundingReserveAmount = (\<lambda>_. 0),
     startChannel = (\<lambda>_ _. None),
     taskbasket_NewTx = (\<lambda>_. None),
     doUpdateChannel_Cmd = (\<lambda>_ root _ _. Inr root),
     updateChannel_Msg = (\<lambda>g _ _ _. (None, g)),
     message_From = (\<lambda>_ _ _. []) \<rparr>"

text \<open>A ready agent with primary account \<open>acct\<close> and one channel.\<close>

definition exAgent :: "string \<Rightarrow> string \<Rightarrow> Channel \<Rightarrow> AgentG" where
  "exAgent acct chanID c = \<lparr> seed = None, wclient_URL = [], acctsReady = [],
     store = \<lparr> Agent = emptyAgentDB\<lparr> db_Ready := True, db_PrimaryAcct := acct,
                 db_Channels := [(chanID, c)] \<rparr>, Tasks = [] \<rparr> \<rparr>"

definition exChannel :: "string \<Rightarrow> Role \<Rightarrow> State \<Rightarrow> string \<Rightarrow> string \<Rightarrow> 64 word \<Rightarrow> Channel" where
  "exChannel chanID r s h gu amt = zeroChannel\<lparr> ch_ID := chanID, ch_Role := r, ch_State := s,
     ch_HostAcct := h, ch_GuestAcct := gu, ch_HostAmount := amt \<rparr>"

definition exPropose :: "string \<Rightarrow> string \<Rightarrow> 64 word \<Rightarrow> ChannelProposeMsg" where
  "exPropose h gu amt = \<lparr> prop_HostAcct = h, prop_GuestAcct = gu, prop_HostRatchetAcct = [],
     prop_GuestRatchetAcct = [], prop_HostAmount = amt, prop_MaxRoundDuration = 0,
     prop_FinalityDelay = 0 \<rparr>"

text \<open>An agent that has never been configured, and a configured one.\<close>

definition exFresh :: AgentG where
  "exFresh = \<lparr> seed = None, wclient_URL = [], acctsReady = [],
     store = \<lparr> Agent = emptyAgentDB, Tasks = [] \<rparr> \<rparr>"

definition exConfigured :: AgentG where
  "exConfigured = \<lparr> seed = Some ''s'', wclient_URL = ''https://horizon-testnet.stellar.org'',
     acctsReady = [],
     store = \<lparr> Agent = emptyAgentDB\<lparr> db_Ready := True, db_PrimaryAcct := ''GA'',
        db_Config := zeroConfigDB\<lparr> cfg_Username := ''alice'', cfg_PwType := ''bcrypt'',
           cfg_PwHash := ''hash:hunter2'',
           cfg_HorizonURL := ''https://horizon-testnet.stellar.org'' \<rparr>,
        db_Wallet := zeroWallet\<lparr> Seqnum := 4294967296, Cursor := ''100'', Address := ''alice*h'' \<rparr> \<rparr>,
        Tasks = [] \<rparr> \<rparr>"


text \<open>
  Four successful ledger transactions with paging token \<open>200\<close>: the issuer \<open>GI\<close>
  allows the trustline of \<open>GA\<close>; \<open>GA\<close> merges its account into \<open>GD\<close>, with the source
  account set in the operation, as \<^verbatim>\<open>DoCloseAccount\<close> sets it; \<open>GA\<close> merges its
  account into \<open>GD\<close> by an operation that takes its source from the transaction; and
  \<open>GB\<close> pays 5 to \<open>GA\<close>.
\<close>

definition exAllowTrustTx :: Tx where
  "exAllowTrustTx = \<lparr> tx_PT = ''200'', tx_Ledger = 7, tx_Success = True, tx_SourceAccount = ''GI'',
     tx_Operations = [\<lparr> op_SourceAccount = Some ''GI'',
                        op_Body = AllowTrustOp ''GA'' AssetTypeCreditAlphanum4 ''USD'' True \<rparr>],
     tx_MergeResults = [None] \<rparr>"

definition exMergeOp :: Operation where
  "exMergeOp = \<lparr> op_SourceAccount = Some ''GA'', op_Body = AccountMergeOp ''GD'' \<rparr>"

definition exMergeTx :: Tx where
  "exMergeTx = \<lparr> tx_PT = ''200'', tx_Ledger = 7, tx_Success = True, tx_SourceAccount = ''GA'',
     tx_Operations = [exMergeOp], tx_MergeResults = [Some 5] \<rparr>"

definition exImplicitMergeTx :: Tx where
  "exImplicitMergeTx = \<lparr> tx_PT = ''200'', tx_Ledger = 7, tx_Success = True,
     tx_SourceAccount = ''GA'',
     tx_Operations = [\<lparr> op_SourceAccount = None, op_Body = AccountMergeOp ''GD'' \<rparr>],
     tx_MergeResults = [Some 5] \<rparr>"

definition exPaymentOp :: Operation where
  "exPaymentOp = \<lparr> op_SourceAccount = None, op_Body = PaymentOp ''GA'' AssetNative 5 \<rparr>"

definition exPaymentTx :: Tx where
  "exPaymentTx = \<lparr> tx_PT = ''200'', tx_Ledger = 7, tx_Success = True, tx_SourceAccount = ''GB'',
     tx_Operations = [exPaymentOp], tx_MergeResults = [None] \<rparr>"

definition exMessage :: "string \<Rightarrow> 64 word \<Rightarrow> ChannelProposeMsg option \<Rightarrow> Message" where
  "exMessage chanID n p = \<lparr> msg_ChannelID = chanID, msg_MsgNum = n, msg_ChannelProposeMsg = p \<rparr>"

text \<open>A guest's channel \<open>EA\<close>.\<close>

definition exGuestChannel :: Channel where
  "exGuestChannel = exChannel ''EA'' Guest PaymentChannel ''GB'' ''GA'' 50"

subsection \<open>Predicates of the properties\<close>


definition updateTypes :: "AgentG \<Rightarrow> UpdateType list" where
  "updateTypes g = map upd_Type (db_Updates (Agent (store g)))"

text \<open>
  The store \<open>root'\<close> has the updates of \<open>root\<close> and one more, an Account update for the
  operation at \<open>index\<close> of the transaction \<open>htx\<close>.
\<close>

definition appendedAccountUpdate :: "Tx \<Rightarrow> nat \<Rightarrow> Root \<Rightarrow> Root \<Rightarrow> bool" where
  "appendedAccountUpdate htx index root root' \<longleftrightarrow>
     db_Updates (Agent root') \<noteq> []
     \<and> butlast (db_Updates (Agent root')) = db_Updates (Agent root)
     \<and> upd_Type (last (db_Updates (Agent root'))) = AccountType
     \<and> upd_InputTx (last (db_Updates (Agent root'))) = Some htx
     \<and> upd_OpIndex (last (db_Updates (Agent root'))) = index"


text \<open>The store after such a merge, at \<open>index\<close> of \<open>htx\<close>: nothing but the flag and one Update.\<close>

definition wiped :: "string \<Rightarrow> Tx \<Rightarrow> nat \<Rightarrow> Root \<Rightarrow> Root" where
  "wiped acctID htx index root =
     root\<lparr> Agent := emptyAgentDB\<lparr> db_Ready := True,
                                  db_Updates := [resetUpdate acctID htx index] \<rparr> \<rparr>"


text \<open>
  The invariant of a message log that \<^verbatim>\<open>Add\<close> keeps: the messages are numbered from 1
  on, without gaps, and the last number given out is their count.
\<close>

definition logInv :: "MessageLog \<Rightarrow> bool" where
  "logInv l \<longleftrightarrow> LastSeqNum l = of_nat (length (Msgs l))
     \<and> map msg_MsgNum (Msgs l) = map of_nat [1..<Suc (length (Msgs l))]"

section \<open>Properties\<close>

subsection \<open>The examples, evaluated\<close>

lemma ex_FindAccount [simp]:
  "FindAccount exEnv ''bob*h'' = Inr (''GB'', ''https://h'')"
  "FindAccount exEnv ''alice*h'' = Inr (''GA'', ''https://h'')"
  by (simp_all add: exEnv_def)

lemma ex_SetAddress_ok [simp]: "SetAddress_ok exEnv a"
  by (simp add: exEnv_def)

lemma ex_SequenceForAccount [simp]: "SequenceForAccount exEnv a = Inr 1"
  by (simp add: exEnv_def)

lemma ex_updateChannel_Msg [simp]: "updateChannel_Msg exEnv g chanID f m = (None, g)"
  by (simp add: exEnv_def)

lemma ex_ValidateTestnetURL [simp]: "ValidateTestnetURL exEnv u = None"
  by (simp add: exEnv_def)

lemma ex_randRead [simp]: "randRead exEnv = replicate 32 (CHR ''r'')"
  by (simp add: exEnv_def)

lemma exAgent_sel [simp]:
  "db_PrimaryAcct (Agent (store (exAgent a i c))) = a"
  "db_Channels (Agent (store (exAgent a i c))) = [(i, c)]"
  "db_Ready (Agent (store (exAgent a i c)))"
  by (simp_all add: exAgent_def emptyAgentDB_def)

lemma exChannel_sel [simp]:
  "ch_HostAcct (exChannel i r s h gu amt) = h"
  "ch_GuestAcct (exChannel i r s h gu amt) = gu"
  "ch_State (exChannel i r s h gu amt) = s"
  "ch_Role (exChannel i r s h gu amt) = r"
  "ch_HostAmount (exChannel i r s h gu amt) = amt"
  by (simp_all add: exChannel_def)

lemma exPropose_sel [simp]:
  "prop_HostAcct (exPropose h gu amt) = h"
  "prop_GuestAcct (exPropose h gu amt) = gu"
  "prop_HostAmount (exPropose h gu amt) = amt"
  by (simp_all add: exPropose_def)

lemma exMessage_sel [simp]:
  "msg_ChannelID (exMessage i n p) = i"
  "msg_ChannelProposeMsg (exMessage i n p) = p"
  by (simp_all add: exMessage_def)

lemma exAgent_chans_Get [simp]:
  "chans_Get (Agent (store (exAgent a i c))) i = c"
  by (simp add: chans_Get_def)

subsection \<open>Conflicts between proposals\<close>

lemma sint_eq_iff64: "sint (a::64 word) = sint b \<longleftrightarrow> a = b"
  by (auto simp: word_eq_iff_signed [where ?'a = int])

lemma checkChannelUnique_loop_found:
  "(chanID, c) \<in> set chans \<Longrightarrow>
   (a = ch_HostAcct c \<and> b = ch_GuestAcct c) \<or> (a = ch_GuestAcct c \<and> b = ch_HostAcct c) \<Longrightarrow>
   \<exists>e. snd (checkChannelUnique_loop chans a b) = Some e \<and> Root e = errExists"
  by (induction chans a b rule: checkChannelUnique_loop.induct) (auto simp: Let_def Wrap_def)

lemma resolve_Root:
  "Root (fst (resolveChannelCreateConflict g chanID propose)) =
     (if \<not> db_Ready (Agent (store g)) then errAgentClosing
      else if Root (fst (resolveChannelCreateConflict g chanID propose)) = errExists then errExists
      else errChannelExistsRetriable)"
  by (simp add: resolveChannelCreateConflict_def Let_def Wrap_def split: State.splits)

lemma resolve_spawned:
  "snd (resolveChannelCreateConflict g chanID propose) = [] \<or>
   snd (resolveChannelCreateConflict g chanID propose) = [(chanID, CleanUp)]
     \<and> ch_State (chans_Get (Agent (store g)) chanID) = ChannelProposed
     \<and> Root (fst (resolveChannelCreateConflict g chanID propose)) = errChannelExistsRetriable"
  by (simp add: resolveChannelCreateConflict_def Let_def Wrap_def split: State.splits)

text \<open>
  C1, as the code has it. Two agents have each proposed a channel (\<open>p1\<close> is the proposal
  of the first agent, whose channel \<open>id1\<close> is in state \<open>ChannelProposed\<close>, and likewise
  \<open>p2\<close> and \<open>id2\<close>), the hosts of the two proposals differ, and each agent receives the
  proposal of the other. Then exactly one proposal goes on, and which one depends on
  the amounts and the host addresses alone: the one with the larger host amount, and on
  equal amounts the one with the lexicographically larger host address. The agent whose
  proposal goes on answers \<open>errExists\<close> and starts nothing; the other agent answers the
  retriable error and starts the clean-up of its own channel.
\<close>

theorem resolveChannelCreateConflict_tiebreak:
  assumes r1: "db_Ready (Agent (store g1))" and r2: "db_Ready (Agent (store g2))"
    and s1: "ch_State (chans_Get (Agent (store g1)) id1) = ChannelProposed"
    and s2: "ch_State (chans_Get (Agent (store g2)) id2) = ChannelProposed"
    and a1: "prop_HostAmount p1 = ch_HostAmount (chans_Get (Agent (store g1)) id1)"
    and h1: "prop_HostAcct p1 = ch_HostAcct (chans_Get (Agent (store g1)) id1)"
    and a2: "prop_HostAmount p2 = ch_HostAmount (chans_Get (Agent (store g2)) id2)"
    and h2: "prop_HostAcct p2 = ch_HostAcct (chans_Get (Agent (store g2)) id2)"
    and ne: "prop_HostAcct p1 \<noteq> prop_HostAcct p2"
  shows "(let r1 = resolveChannelCreateConflict g1 id1 p2;
              r2 = resolveChannelCreateConflict g2 id2 p1
          in if sint (prop_HostAmount p2) < sint (prop_HostAmount p1)
                \<or> (prop_HostAmount p2 = prop_HostAmount p1 \<and> prop_HostAcct p2 < prop_HostAcct p1)
             then Root (fst r1) = errExists \<and> snd r1 = []
                  \<and> Root (fst r2) = errChannelExistsRetriable \<and> snd r2 = [(id2, CleanUp)]
             else Root (fst r2) = errExists \<and> snd r2 = []
                  \<and> Root (fst r1) = errChannelExistsRetriable \<and> snd r1 = [(id1, CleanUp)])"
proof -
  have lin: "prop_HostAcct p1 < prop_HostAcct p2 \<or> prop_HostAcct p2 < prop_HostAcct p1"
    using ne by auto
  show ?thesis
    using r1 r2 s1 s2 lin
    unfolding resolveChannelCreateConflict_def Let_def
      a1[symmetric] h1[symmetric] a2[symmetric] h2[symmetric]
    by (auto simp: Wrap_def sint_eq_iff64)
qed

text \<open>
  A witness for C1: \<open>GA\<close> has proposed 100 and \<open>GB\<close> has proposed 50, so the proposal
  of \<open>GA\<close> goes on and \<open>GB\<close> cleans up.
\<close>

theorem resolveChannelCreateConflict_tiebreak_witness:
  "(let r1 = resolveChannelCreateConflict
               (exAgent ''GA'' ''EA'' (exChannel ''EA'' Host ChannelProposed ''GA'' ''GB'' 100)) ''EA''
               (exPropose ''GB'' ''GA'' 50);
        r2 = resolveChannelCreateConflict
               (exAgent ''GB'' ''EB'' (exChannel ''EB'' Host ChannelProposed ''GB'' ''GA'' 50)) ''EB''
               (exPropose ''GA'' ''GB'' 100)
    in Root (fst r1) = errExists \<and> snd r1 = []
       \<and> Root (fst r2) = errChannelExistsRetriable \<and> snd r2 = [(''EB'', CleanUp)])"
  using resolveChannelCreateConflict_tiebreak
    [of "exAgent ''GA'' ''EA'' (exChannel ''EA'' Host ChannelProposed ''GA'' ''GB'' 100)"
        "exAgent ''GB'' ''EB'' (exChannel ''EB'' Host ChannelProposed ''GB'' ''GA'' 50)"
        "''EA''" "''EB''" "exPropose ''GA'' ''GB'' 100" "exPropose ''GB'' ''GA'' 50"]
  by simp

text \<open>
  C1 as it is written fails on a tie. \<open>GA\<close> and \<open>GB\<close> have both proposed 50, and \<open>GA\<close>
  is the smaller address. The proposal of \<open>GA\<close> does not win: \<open>GB\<close> answers it with
  \<open>errExists\<close> and keeps its own channel, and \<open>GA\<close>, when it receives the proposal of
  \<open>GB\<close>, answers the retriable error and cleans up its own channel.
\<close>

theorem tiebreak_smaller_host_address_loses:
  "resolveChannelCreateConflict
       (exAgent ''GB'' ''EB'' (exChannel ''EB'' Host ChannelProposed ''GB'' ''GA'' 50)) ''EB''
       (exPropose ''GA'' ''GB'' 50)
     = (Wrap (Error errExists []) ''channel proposed: host GA, guest GB'', [])
   \<and> resolveChannelCreateConflict
       (exAgent ''GA'' ''EA'' (exChannel ''EA'' Host ChannelProposed ''GA'' ''GB'' 50)) ''EA''
       (exPropose ''GB'' ''GA'' 50)
     = (Wrap (Error errChannelExistsRetriable []) ''channel proposed: host GB, guest GA'',
        [(''EA'', CleanUp)])"
  by (simp add: resolveChannelCreateConflict_def Let_def)

subsection \<open>One channel for a pair of accounts\<close>

lemma DoCreateChannel_exists:
  "guestFedAddr \<noteq> [] \<Longrightarrow> hostAmount \<noteq> 0 \<Longrightarrow> FindAccount env guestFedAddr = Inr (guestAcct, url)
   \<Longrightarrow> guestAcct \<noteq> db_PrimaryAcct (Agent (store g))
   \<Longrightarrow> snd (checkChannelUnique g (db_PrimaryAcct (Agent (store g))) guestAcct) = Some e
   \<Longrightarrow> DoCreateChannel env g guestFedAddr hostAmount = (Inl e, g)"
  by (simp add: DoCreateChannel_def Let_def)

lemma handleMsg_conflict:
  "msg_ChannelID m \<noteq> [] \<Longrightarrow> msg_ChannelProposeMsg m = Some propose
   \<Longrightarrow> checkChannelUnique g (prop_HostAcct propose) (prop_GuestAcct propose) = (cid, Some e)
   \<Longrightarrow> handleMsg env g (Inr m) =
         \<lparr> hr_error = Some (fst (resolveChannelCreateConflict g cid propose)), hr_agent = g,
           hr_spawned = snd (resolveChannelCreateConflict g cid propose), hr_updated = False \<rparr>"
  by (simp add: handleMsg_def split_beta)

text \<open>
  C2, as the code has it. Let the store hold a channel \<open>c\<close>, in any state. A
  \<^verbatim>\<open>DoCreateChannel\<close> whose guest resolves to an account that, with the primary account,
  makes the pair of \<open>c\<close> in either order fails with \<open>errExists\<close> and leaves the agent as
  it was. A \<^verbatim>\<open>ChannelPropose\<close> message whose host and guest make the pair of \<open>c\<close> in
  either order is answered with an error, leaves the agent as it was and never reaches
  the state machine; the error is \<open>errExists\<close> or the retriable error when the agent is
  ready, and \<open>errAgentClosing\<close> when it is not.
\<close>

theorem existing_channel_blocks_create:
  assumes inl: "(chanID, c) \<in> set (db_Channels (Agent (store g)))"
  shows "(guestFedAddr \<noteq> [] \<and> hostAmount \<noteq> 0
            \<and> FindAccount env guestFedAddr = Inr (guestAcct, url)
            \<and> guestAcct \<noteq> db_PrimaryAcct (Agent (store g))
            \<and> ((db_PrimaryAcct (Agent (store g)) = ch_HostAcct c \<and> guestAcct = ch_GuestAcct c)
               \<or> (db_PrimaryAcct (Agent (store g)) = ch_GuestAcct c \<and> guestAcct = ch_HostAcct c))
          \<longrightarrow> (\<exists>e. DoCreateChannel env g guestFedAddr hostAmount = (Inl e, g) \<and> Root e = errExists))
       \<and> (msg_ChannelID m \<noteq> [] \<and> msg_ChannelProposeMsg m = Some propose
            \<and> ((prop_HostAcct propose = ch_HostAcct c \<and> prop_GuestAcct propose = ch_GuestAcct c)
               \<or> (prop_HostAcct propose = ch_GuestAcct c \<and> prop_GuestAcct propose = ch_HostAcct c))
          \<longrightarrow> hr_agent (handleMsg env g (Inr m)) = g
              \<and> \<not> hr_updated (handleMsg env g (Inr m))
              \<and> (\<exists>e. hr_error (handleMsg env g (Inr m)) = Some e
                     \<and> (if db_Ready (Agent (store g))
                        then Root e = errExists \<or> Root e = errChannelExistsRetriable
                        else Root e = errAgentClosing)))"
proof (intro conjI impI)
  assume h: "guestFedAddr \<noteq> [] \<and> hostAmount \<noteq> 0
            \<and> FindAccount env guestFedAddr = Inr (guestAcct, url)
            \<and> guestAcct \<noteq> db_PrimaryAcct (Agent (store g))
            \<and> ((db_PrimaryAcct (Agent (store g)) = ch_HostAcct c \<and> guestAcct = ch_GuestAcct c)
               \<or> (db_PrimaryAcct (Agent (store g)) = ch_GuestAcct c \<and> guestAcct = ch_HostAcct c))"
  from checkChannelUnique_loop_found [OF inl, of "db_PrimaryAcct (Agent (store g))" guestAcct] h
  obtain e where e: "snd (checkChannelUnique g (db_PrimaryAcct (Agent (store g))) guestAcct) = Some e"
    "Root e = errExists"
    by (auto simp: checkChannelUnique_def)
  from h have "DoCreateChannel env g guestFedAddr hostAmount = (Inl e, g)"
    by (intro DoCreateChannel_exists [OF _ _ _ _ e(1)]) auto
  with e(2) show "\<exists>e. DoCreateChannel env g guestFedAddr hostAmount = (Inl e, g) \<and> Root e = errExists"
    by blast
next
  assume h: "msg_ChannelID m \<noteq> [] \<and> msg_ChannelProposeMsg m = Some propose
            \<and> ((prop_HostAcct propose = ch_HostAcct c \<and> prop_GuestAcct propose = ch_GuestAcct c)
               \<or> (prop_HostAcct propose = ch_GuestAcct c \<and> prop_GuestAcct propose = ch_HostAcct c))"
  from checkChannelUnique_loop_found [OF inl, of "prop_HostAcct propose" "prop_GuestAcct propose"] h
  obtain e where e: "snd (checkChannelUnique g (prop_HostAcct propose) (prop_GuestAcct propose)) = Some e"
    by (auto simp: checkChannelUnique_def)
  then obtain cid where cu:
    "checkChannelUnique g (prop_HostAcct propose) (prop_GuestAcct propose) = (cid, Some e)"
    by (cases "checkChannelUnique g (prop_HostAcct propose) (prop_GuestAcct propose)") auto
  define err where "err = fst (resolveChannelCreateConflict g cid propose)"
  define sp where "sp = snd (resolveChannelCreateConflict g cid propose)"
  have hm: "handleMsg env g (Inr m) =
      \<lparr> hr_error = Some err, hr_agent = g, hr_spawned = sp, hr_updated = False \<rparr>"
    unfolding err_def sp_def using h cu by (intro handleMsg_conflict) auto
  have rt: "Root err = (if \<not> db_Ready (Agent (store g)) then errAgentClosing
                        else if Root err = errExists then errExists
                        else errChannelExistsRetriable)"
    unfolding err_def by (rule resolve_Root)
  show "hr_agent (handleMsg env g (Inr m)) = g" using hm by simp
  show "\<not> hr_updated (handleMsg env g (Inr m))" using hm by simp
  show "\<exists>e. hr_error (handleMsg env g (Inr m)) = Some e
           \<and> (if db_Ready (Agent (store g))
              then Root e = errExists \<or> Root e = errChannelExistsRetriable
              else Root e = errAgentClosing)"
    using hm rt by (auto split: if_splits)
qed

text \<open>
  A witness for C2: \<open>GA\<close> hosts an open channel with \<open>GB\<close>; creating a channel to
  \<open>bob*h\<close>, which resolves to \<open>GB\<close>, fails with \<open>errExists\<close>, and a proposal of \<open>GB\<close> to
  \<open>GA\<close> leaves the agent as it was.
\<close>

theorem existing_channel_blocks_create_witness:
  "(\<exists>e. DoCreateChannel exEnv (exAgent ''GA'' ''EA'' (exChannel ''EA'' Host PaymentChannel ''GA'' ''GB'' 50)) ''bob*h'' 100
          = (Inl e, exAgent ''GA'' ''EA'' (exChannel ''EA'' Host PaymentChannel ''GA'' ''GB'' 50)) \<and> Root e = errExists)
   \<and> hr_agent (handleMsg exEnv (exAgent ''GA'' ''EA'' (exChannel ''EA'' Host PaymentChannel ''GA'' ''GB'' 50))
        (Inr (exMessage ''EB'' 1 (Some (exPropose ''GB'' ''GA'' 70)))))
      = exAgent ''GA'' ''EA'' (exChannel ''EA'' Host PaymentChannel ''GA'' ''GB'' 50)
   \<and> \<not> hr_updated (handleMsg exEnv (exAgent ''GA'' ''EA'' (exChannel ''EA'' Host PaymentChannel ''GA'' ''GB'' 50))
        (Inr (exMessage ''EB'' 1 (Some (exPropose ''GB'' ''GA'' 70)))))"
  using existing_channel_blocks_create [of "''EA''" "exChannel ''EA'' Host PaymentChannel ''GA'' ''GB'' 50"
      "exAgent ''GA'' ''EA'' (exChannel ''EA'' Host PaymentChannel ''GA'' ''GB'' 50)"
      "''bob*h''" 100 exEnv "''GB''" "''https://h''"
      "exMessage ''EB'' 1 (Some (exPropose ''GB'' ''GA'' 70))" "exPropose ''GB'' ''GA'' 70"]
  by simp

text \<open>
  C2 as it is written fails where it says that an attempt that matches only a closed
  channel succeeds: the only channel between \<open>GA\<close> and \<open>GB\<close> is closed, and
  \<^verbatim>\<open>DoCreateChannel\<close> to \<open>bob*h\<close> fails with \<open>errExists\<close> all the same.
\<close>

theorem closed_channel_blocks_create:
  "DoCreateChannel exEnv (exAgent ''GA'' ''EA'' (exChannel ''EA'' Host Closed ''GA'' ''GB'' 50)) ''bob*h'' 100
     = (Inl (Wrap (Error errExists []) ''between host GA and guest GB''),
        exAgent ''GA'' ''EA'' (exChannel ''EA'' Host Closed ''GA'' ''GB'' 50))"
  by (simp add: DoCreateChannel_def checkChannelUnique_def Let_def)

subsection \<open>Messages for a channel that the agent hosts\<close>

lemma handleMsg_update_Host:
  "channelRole g (msg_ChannelID m) = Host \<Longrightarrow>
   handleMsg_update env g m pc =
     \<lparr> hr_error = Some (Error errRemoteGuestMessage []), hr_agent = g, hr_spawned = [],
       hr_updated = False \<rparr>"
  by (simp add: handleMsg_update_def)

lemma handleMsg_no_conflict_Host:
  assumes "channelRole g (msg_ChannelID m) = Host" "msg_ChannelID m \<noteq> []"
    and "msg_ChannelProposeMsg m = None
         \<or> (\<exists>p. msg_ChannelProposeMsg m = Some p
                \<and> snd (checkChannelUnique g (prop_HostAcct p) (prop_GuestAcct p)) = None)"
  shows "hr_error (handleMsg env g (Inr m)) \<noteq> None \<and> hr_agent (handleMsg env g (Inr m)) = g
       \<and> \<not> hr_updated (handleMsg env g (Inr m)) \<and> hr_spawned (handleMsg env g (Inr m)) = []"
  using assms
  by (auto simp: handleMsg_def handleMsg_update_Host Sub_def split_beta
           split: option.splits sum.splits prod.splits)

text \<open>
  C7, as the code has it. A message that names a channel for which the agent is the host
  is answered with an error, leaves the agent as it was and never reaches the state
  machine as an input. It starts no command either, unless it is a \<^verbatim>\<open>ChannelPropose\<close>
  whose host and guest are those of a channel of the store that is in state
  \<open>ChannelProposed\<close>: then the resolution of the conflict, which comes before the check
  of the role, may start the clean-up of that channel.
\<close>

theorem handleMsg_host_rejects:
  assumes role: "channelRole g (msg_ChannelID m) = Host" and cid: "msg_ChannelID m \<noteq> []"
  shows "hr_error (handleMsg env g (Inr m)) \<noteq> None
       \<and> hr_agent (handleMsg env g (Inr m)) = g
       \<and> \<not> hr_updated (handleMsg env g (Inr m))
       \<and> (hr_spawned (handleMsg env g (Inr m)) = []
          \<or> (\<exists>propose chanID e.
                msg_ChannelProposeMsg m = Some propose
              \<and> checkChannelUnique g (prop_HostAcct propose) (prop_GuestAcct propose) = (chanID, Some e)
              \<and> ch_State (chans_Get (Agent (store g)) chanID) = ChannelProposed
              \<and> hr_spawned (handleMsg env g (Inr m)) = [(chanID, CleanUp)]))"
proof (cases "\<exists>p chanID e. msg_ChannelProposeMsg m = Some p
                \<and> checkChannelUnique g (prop_HostAcct p) (prop_GuestAcct p) = (chanID, Some e)")
  case True
  then obtain p chanID e where p: "msg_ChannelProposeMsg m = Some p"
    and cu: "checkChannelUnique g (prop_HostAcct p) (prop_GuestAcct p) = (chanID, Some e)"
    by blast
  note hm = handleMsg_conflict [OF cid p cu, of env]
  from resolve_spawned [of g chanID p] show ?thesis
    using p cu by (auto simp: hm)
next
  case False
  then have "msg_ChannelProposeMsg m = None
         \<or> (\<exists>p. msg_ChannelProposeMsg m = Some p
                \<and> snd (checkChannelUnique g (prop_HostAcct p) (prop_GuestAcct p)) = None)"
    by (cases "msg_ChannelProposeMsg m") (auto simp: prod_eq_iff)
  from handleMsg_no_conflict_Host [OF role cid this] show ?thesis
    by simp
qed

text \<open>
  A witness for C7: \<open>GA\<close> hosts the open channel \<open>EA\<close>; a message for \<open>EA\<close> that is not
  a proposal is answered with an error and changes and starts nothing.
\<close>

theorem handleMsg_host_rejects_witness:
  "hr_error (handleMsg exEnv (exAgent ''GA'' ''EA'' (exChannel ''EA'' Host PaymentChannel ''GA'' ''GB'' 50))
        (Inr (exMessage ''EA'' 1 None))) \<noteq> None
   \<and> hr_agent (handleMsg exEnv (exAgent ''GA'' ''EA'' (exChannel ''EA'' Host PaymentChannel ''GA'' ''GB'' 50))
        (Inr (exMessage ''EA'' 1 None))) = exAgent ''GA'' ''EA'' (exChannel ''EA'' Host PaymentChannel ''GA'' ''GB'' 50)
   \<and> \<not> hr_updated (handleMsg exEnv (exAgent ''GA'' ''EA'' (exChannel ''EA'' Host PaymentChannel ''GA'' ''GB'' 50))
        (Inr (exMessage ''EA'' 1 None)))
   \<and> hr_spawned (handleMsg exEnv (exAgent ''GA'' ''EA'' (exChannel ''EA'' Host PaymentChannel ''GA'' ''GB'' 50))
        (Inr (exMessage ''EA'' 1 None))) = []"
  using handleMsg_host_rejects [of "exAgent ''GA'' ''EA'' (exChannel ''EA'' Host PaymentChannel ''GA'' ''GB'' 50)"
                   "exMessage ''EA'' 1 None" exEnv]
  by (simp add: channelRole_def)

text \<open>
  C7 as it is written fails where it says that no step of the state machine is applied:
  \<open>GA\<close> hosts \<open>EA\<close>, which is in state \<open>ChannelProposed\<close> with a host amount of 50; a
  \<^verbatim>\<open>ChannelPropose\<close> for \<open>EA\<close> from \<open>GB\<close> with a host amount of 100 is answered with
  an error, and the \<^verbatim>\<open>CleanUp\<close> command is started on \<open>EA\<close>.
\<close>

theorem handleMsg_host_proposal_starts_cleanup:
  "channelRole (exAgent ''GA'' ''EA'' (exChannel ''EA'' Host ChannelProposed ''GA'' ''GB'' 50)) ''EA'' = Host
   \<and> hr_spawned (handleMsg exEnv (exAgent ''GA'' ''EA'' (exChannel ''EA'' Host ChannelProposed ''GA'' ''GB'' 50))
        (Inr (exMessage ''EA'' 1 (Some (exPropose ''GB'' ''GA'' 100))))) = [(''EA'', CleanUp)]"
  by (simp add: channelRole_def handleMsg_def checkChannelUnique_def
        resolveChannelCreateConflict_def Let_def)

subsection \<open>A channel with oneself\<close>

text \<open>
  C10. When the guest's federation address resolves to the agent's own primary account,
  \<^verbatim>\<open>DoCreateChannel\<close> returns an error and leaves the agent as it was; the error is
  \<open>errAcctsSame\<close> whenever the call has an address and an amount, which the two checks
  before the resolution ask for.
\<close>

theorem DoCreateChannel_self:
  assumes "FindAccount env guestFedAddr = Inr (db_PrimaryAcct (Agent (store g)), url)"
  shows "snd (DoCreateChannel env g guestFedAddr hostAmount) = g
       \<and> (\<exists>e. fst (DoCreateChannel env g guestFedAddr hostAmount) = Inl e
              \<and> Root e = (if guestFedAddr = [] then errEmptyAddress
                          else if hostAmount = 0 then errEmptyAmount else errAcctsSame))"
  using assms by (simp add: DoCreateChannel_def Let_def)

text \<open>A witness for C10: \<open>alice*h\<close> resolves to \<open>GA\<close>, the primary account of the agent.\<close>

theorem DoCreateChannel_self_witness:
  "snd (DoCreateChannel exEnv (exAgent ''GA'' ''EA'' (exChannel ''EA'' Host PaymentChannel ''GA'' ''GB'' 50)) ''alice*h'' 100)
     = exAgent ''GA'' ''EA'' (exChannel ''EA'' Host PaymentChannel ''GA'' ''GB'' 50)
   \<and> (\<exists>e. fst (DoCreateChannel exEnv (exAgent ''GA'' ''EA'' (exChannel ''EA'' Host PaymentChannel ''GA'' ''GB'' 50)) ''alice*h'' 100) = Inl e
          \<and> Root e = errAcctsSame)"
  using DoCreateChannel_self [of exEnv "''alice*h''"
      "exAgent ''GA'' ''EA'' (exChannel ''EA'' Host PaymentChannel ''GA'' ''GB'' 50)" "''https://h''" 100]
  by simp

subsection \<open>The wallet watcher\<close>

lemma putUpdate_sel [simp]:
  "db_Updates (Agent (putUpdate u r)) = db_Updates (Agent r) @ [u]"
  "db_Wallet (Agent (putUpdate u r)) = db_Wallet (Agent r)"
  "db_Ready (Agent (putUpdate u r)) = db_Ready (Agent r)"
  "db_Config (Agent (putUpdate u r)) = db_Config (Agent r)"
  "Tasks (putUpdate u r) = Tasks r"
  by (simp_all add: putUpdate_def)

lemma PutWallet_sel [simp]:
  "db_Updates (Agent (PutWallet w r)) = db_Updates (Agent r)"
  "db_Wallet (Agent (PutWallet w r)) = w"
  "db_Ready (Agent (PutWallet w r)) = db_Ready (Agent r)"
  "db_Config (Agent (PutWallet w r)) = db_Config (Agent r)"
  "Tasks (PutWallet w r) = Tasks r"
  by (simp_all add: PutWallet_def)

lemma PutReady_sel [simp]:
  "db_Updates (Agent (PutReady b r)) = db_Updates (Agent r)"
  "db_Wallet (Agent (PutReady b r)) = db_Wallet (Agent r)"
  "db_Ready (Agent (PutReady b r)) = b"
  "db_Config (Agent (PutReady b r)) = db_Config (Agent r)"
  "Tasks (PutReady b r) = Tasks r"
  by (simp_all add: PutReady_def)

lemma DeleteAgent_sel [simp]:
  "Agent (DeleteAgent r) = emptyAgentDB"
  "Tasks (DeleteAgent r) = Tasks r"
  by (simp_all add: DeleteAgent_def)

lemma addTxTask_sel [simp]:
  "Agent (addTxTask c e r) = Agent r"
  by (simp add: addTxTask_def)

lemma emptyAgentDB_sel [simp]:
  "db_Updates emptyAgentDB = []"
  "db_Wallet emptyAgentDB = zeroWallet"
  "db_Ready emptyAgentDB = False"
  "db_Config emptyAgentDB = zeroConfigDB"
  "db_Channels emptyAgentDB = []"
  by (simp_all add: emptyAgentDB_def)

lemma zeroWallet_sel [simp]:
  "Cursor zeroWallet = []"
  by (simp add: zeroWallet_def)

lemma accountUpdate_sel [simp]:
  "upd_Type (accountUpdate a w b htx i) = AccountType"
  "upd_InputTx (accountUpdate a w b htx i) = Some htx"
  "upd_OpIndex (accountUpdate a w b htx i) = i"
  by (simp_all add: accountUpdate_def)

lemma resetUpdate_sel [simp]:
  "upd_Type (resetUpdate a htx i) = AccountType"
  "upd_InputTx (resetUpdate a htx i) = Some htx"
  "upd_OpIndex (resetUpdate a htx i) = i"
  "upd_Account (resetUpdate a htx i) =
     Some \<lparr> ua_ID = a, ua_Balance = 0, ua_Balances = Map.empty, ua_Reserve = 0 \<rparr>"
  by (simp_all add: resetUpdate_def)


lemma begin_sel [simp]:
  "Cursor (db_Wallet (Agent (watchWalletAcct_begin acctID htx root))) =
     (if tx_SourceAccount htx = acctID then tx_PT htx else Cursor (db_Wallet (Agent root)))"
  by (simp add: watchWalletAcct_begin_def)

lemma codeArray_length [simp]: "length (codeArray n code) = n"
  by (simp add: codeArray_def)

lemma SetCredit_codeArray [simp]:
  "SetCredit (codeArray 4 code) issuer = Inr (CreditAlphanum4 (codeArray 4 code) issuer)"
  "SetCredit (codeArray 12 code) issuer = Inr (CreditAlphanum12 (codeArray 12 code) issuer)"
  by (simp_all add: SetCredit_def)

lemma appended_putUpdate [simp]:
  "db_Updates (Agent r) = db_Updates (Agent root) \<Longrightarrow>
   appendedAccountUpdate htx index root (putUpdate (accountUpdate a w b htx index) r)"
  by (simp add: appendedAccountUpdate_def)

lemma appended_addTxTask [simp]:
  "appendedAccountUpdate htx index root (addTxTask c e r) = appendedAccountUpdate htx index root r"
  by (simp add: appendedAccountUpdate_def)





lemma MergeOut_applied:
  "Address_of src = acctID \<Longrightarrow> dest \<noteq> acctID
   \<Longrightarrow> walletOp_AccountMerge acctID htx index src dest root = Returns (wiped acctID htx index root)"
  by (simp add: walletOp_AccountMerge_def wiped_def DeleteAgent_def putUpdate_def PutReady_def
        emptyAgentDB_def)

lemma wiped_sel [simp]:
  "db_Wallet (Agent (wiped acctID htx index root)) = zeroWallet"
  "db_Updates (Agent (wiped acctID htx index root)) = [resetUpdate acctID htx index]"
  "db_Ready (Agent (wiped acctID htx index root))"
  "db_Config (Agent (wiped acctID htx index root)) = zeroConfigDB"
  "db_Channels (Agent (wiped acctID htx index root)) = []"
  "Tasks (wiped acctID htx index root) = Tasks root"
  by (simp_all add: wiped_def emptyAgentDB_def)

















lemma exConfigured_sel [simp]:
  "seed exConfigured = Some ''s''"
  "acctsReady exConfigured = []"
  "Cursor (db_Wallet (Agent (store exConfigured))) = ''100''"
  "db_Updates (Agent (store exConfigured)) = []"
  "cfg_HorizonURL (db_Config (Agent (store exConfigured))) = ''https://horizon-testnet.stellar.org''"
  "cfg_Username (db_Config (Agent (store exConfigured))) = ''alice''"
  "db_PrimaryAcct (Agent (store exConfigured)) = ''GA''"
  by (simp_all add: exConfigured_def emptyAgentDB_def zeroWallet_def zeroConfigDB_def)

lemma exTx_sel [simp]:
  "tx_Success exAllowTrustTx" "tx_PT exAllowTrustTx = ''200''" "tx_SourceAccount exAllowTrustTx = ''GI''"
  "tx_Operations exAllowTrustTx = [\<lparr> op_SourceAccount = Some ''GI'',
                        op_Body = AllowTrustOp ''GA'' AssetTypeCreditAlphanum4 ''USD'' True \<rparr>]"
  "tx_Success exMergeTx" "tx_PT exMergeTx = ''200''" "tx_SourceAccount exMergeTx = ''GA''"
  "tx_Operations exMergeTx = [exMergeOp]"
  "tx_Success exPaymentTx" "tx_PT exPaymentTx = ''200''" "tx_SourceAccount exPaymentTx = ''GB''"
  "tx_Operations exPaymentTx = [exPaymentOp]"
  "tx_Success exImplicitMergeTx" "tx_PT exImplicitMergeTx = ''200''"
  "tx_SourceAccount exImplicitMergeTx = ''GA''"
  "tx_Operations exImplicitMergeTx = [\<lparr> op_SourceAccount = None, op_Body = AccountMergeOp ''GD'' \<rparr>]"
  by (simp_all add: exAllowTrustTx_def exMergeTx_def exPaymentTx_def exImplicitMergeTx_def)

lemma exOp_sel [simp]:
  "op_Body exMergeOp = AccountMergeOp ''GD''" "op_SourceAccount exMergeOp = Some ''GA''"
  "op_Body exPaymentOp = PaymentOp ''GA'' AssetNative 5" "op_SourceAccount exPaymentOp = None"
  by (simp_all add: exMergeOp_def exPaymentOp_def)




text \<open>
  What the watcher does with a merge whose own source account is the watched account, as
  \<^verbatim>\<open>DoCloseAccount\<close> builds it (the destination is another account, as the ledger
  demands): the \<^verbatim>\<open>agent\<close> bucket is emptied, one Account update with balance 0 is
  published, and \<open>ready\<close> is set; the agent is then not configured, so that
  \<^verbatim>\<open>ConfigInit\<close> can run again. When the merge is the only operation of the
  transaction, this is the whole effect of the transaction.
\<close>

lemma merge_by_own_source_wipes_agent:
  assumes "op_Body op = AccountMergeOp dest" "op_SourceAccount op = Some acctID" "dest \<noteq> acctID"
  shows "walletOp env sd acctID htx index op latches root
           = (latches, Returns (wiped acctID htx index root))"
    and "tx_Success htx \<Longrightarrow> tx_Operations htx = [op] \<Longrightarrow>
           watchWalletAcct_onTx env acctID g (Inr htx)
             = Some (None, g\<lparr> acctsReady := acctsReady g, store := wiped acctID htx 0 (store g) \<rparr>)"
    and "db_Updates (Agent (wiped acctID htx index root)) = [resetUpdate acctID htx index]"
    and "upd_Type (resetUpdate acctID htx index) = AccountType"
    and "map_option ua_Balance (upd_Account (resetUpdate acctID htx index)) = Some 0"
    and "db_Ready (Agent (wiped acctID htx index root))"
    and "\<not> isReadyConfigured (wiped acctID htx index root)"
proof -
  have a: "Address_of (op_SourceAccount op) = acctID"
    using assms(2) by (simp add: Address_of_def)
  have 1: "walletOp env sd acctID htx index op latches root
           = (latches, Returns (wiped acctID htx index root))" for sd index latches root
    using MergeOut_applied [OF a assms(3)] assms(1) by (simp add: walletOp_def)
  then show "walletOp env sd acctID htx index op latches root
           = (latches, Returns (wiped acctID htx index root))" .
  have w: "wiped acctID htx 0 (watchWalletAcct_begin acctID htx root) = wiped acctID htx 0 root" for root
    by (simp add: wiped_def watchWalletAcct_begin_def putUpdate_def PutWallet_def)
  show "watchWalletAcct_onTx env acctID g (Inr htx)
      = Some (None, g\<lparr> acctsReady := acctsReady g, store := wiped acctID htx 0 (store g) \<rparr>)"
    if "tx_Success htx" "tx_Operations htx = [op]"
    using that by (simp add: watchWalletAcct_onTx_def watchWalletAcct_tx_def 1 w)
  show "\<not> isReadyConfigured (wiped acctID htx index root)"
    by (simp add: isReadyConfigured_def wiped_def emptyAgentDB_def zeroConfigDB_def)
qed simp_all

text \<open>
  A merge that takes its source from the transaction has no source account of its own,
  and the watcher passes it by, whichever account has sent the transaction.
\<close>

lemma merge_by_inherited_source_is_passed_by:
  "op_Body op = AccountMergeOp dest \<Longrightarrow> op_SourceAccount op = None \<Longrightarrow> acctID \<noteq> []
   \<Longrightarrow> dest \<noteq> acctID
   \<Longrightarrow> walletOp env sd acctID htx index op latches root = (latches, Returns root)"
  by (simp add: walletOp_def walletOp_AccountMerge_def Address_of_def)

text \<open>
  C4 at the input on which the code departs from it. The primary account \<open>GA\<close> of a
  configured agent sends the transaction \<open>200\<close>, whose one operation merges the source
  account into \<open>GD\<close> and names no source account of its own: the account that is
  merged is \<open>GA\<close>. The watcher returns without an error, and the agent is still there:
  still configured, with its primary account, its user name, and no Update other than
  that of the transaction's success.
\<close>

theorem inherited_source_merge_keeps_agent:
  "map_option fst (watchWalletAcct_onTx exEnv ''GA'' exConfigured (Inr exImplicitMergeTx)) = Some None
   \<and> map_option (isReadyConfigured \<circ> store \<circ> snd)
        (watchWalletAcct_onTx exEnv ''GA'' exConfigured (Inr exImplicitMergeTx)) = Some True
   \<and> map_option (db_PrimaryAcct \<circ> Agent \<circ> store \<circ> snd)
        (watchWalletAcct_onTx exEnv ''GA'' exConfigured (Inr exImplicitMergeTx)) = Some ''GA''
   \<and> map_option (cfg_Username \<circ> db_Config \<circ> Agent \<circ> store \<circ> snd)
        (watchWalletAcct_onTx exEnv ''GA'' exConfigured (Inr exImplicitMergeTx)) = Some ''alice''
   \<and> map_option (updateTypes \<circ> snd)
        (watchWalletAcct_onTx exEnv ''GA'' exConfigured (Inr exImplicitMergeTx)) = Some [TxSuccessType]
   \<and> db_PrimaryAcct (Agent (store exConfigured)) = ''GA''
   \<and> tx_SourceAccount exImplicitMergeTx = ''GA''
   \<and> tx_Operations exImplicitMergeTx = [\<lparr> op_SourceAccount = None, op_Body = AccountMergeOp ''GD'' \<rparr>]"
proof -
  have "watchWalletAcct_onTx exEnv ''GA'' exConfigured (Inr exImplicitMergeTx)
      = Some (None, exConfigured\<lparr> acctsReady := [],
                store := watchWalletAcct_begin ''GA'' exImplicitMergeTx (store exConfigured) \<rparr>)"
    by (simp add: watchWalletAcct_onTx_def watchWalletAcct_tx_def
          merge_by_inherited_source_is_passed_by)
  then show ?thesis
    by (simp add: watchWalletAcct_begin_def updateTypes_def isReadyConfigured_def putUpdate_def
          PutWallet_def exConfigured_def emptyAgentDB_def zeroConfigDB_def)
qed

text \<open>
  What the evaluation of C4 comes to: the store after the transaction is not the one
  that the merge of the primary account is to leave.
\<close>

theorem inherited_source_merge_keeps_agent_witness:
  "map_option (store \<circ> snd) (watchWalletAcct_onTx exEnv ''GA'' exConfigured (Inr exImplicitMergeTx))
     \<noteq> Some (wiped ''GA'' exImplicitMergeTx 0 (store exConfigured))"
proof
  assume "map_option (store \<circ> snd) (watchWalletAcct_onTx exEnv ''GA'' exConfigured (Inr exImplicitMergeTx))
     = Some (wiped ''GA'' exImplicitMergeTx 0 (store exConfigured))"
  then have "map_option (isReadyConfigured \<circ> store \<circ> snd)
        (watchWalletAcct_onTx exEnv ''GA'' exConfigured (Inr exImplicitMergeTx))
      = Some (isReadyConfigured (wiped ''GA'' exImplicitMergeTx 0 (store exConfigured)))"
    by (cases "watchWalletAcct_onTx exEnv ''GA'' exConfigured (Inr exImplicitMergeTx)") auto
  with inherited_source_merge_keeps_agent
  show False
    by (simp add: isReadyConfigured_def wiped_def emptyAgentDB_def zeroConfigDB_def)
qed

subsection \<open>ConfigInit and ConfigEdit\<close>

lemma start_store [simp]: "store (snd (start env g root)) = store g"
  by (simp add: start_def Let_def split: option.splits)

lemma start_store_eq: "start env g root = (eo, g') \<Longrightarrow> store g' = store g"
  using start_store [of env g root] by simp

lemma ConfigInit_error_store:
  "fst (ConfigInit env g c hostURL) \<noteq> None \<Longrightarrow> store (snd (ConfigInit env g c hostURL)) = store g"
  unfolding ConfigInit_def Let_def
  by (auto split: option.splits sum.splits if_splits prod.splits dest!: start_store_eq)

lemma ConfigInit_checks:
  assumes "ValidateTestnetURL env (HorizonURL c) = None" "\<not> isReadyConfigured (store g)"
  shows "72 < length (Password c) \<or> Password c = [] \<Longrightarrow>
           ConfigInit env g c hostURL =
             (Some (Wrap (Error errInvalidPassword [])
                (if 72 < length (Password c) then ''too long (max 72 chars)'' else ''empty password'')),
              g\<lparr> seed := Some (randRead env) \<rparr>)"
    and "length (Password c) \<le> 72 \<Longrightarrow> Password c \<noteq> [] \<Longrightarrow> \<not> validateUsername (Username c) \<Longrightarrow>
           ConfigInit env g c hostURL = (Some (Error errInvalidUsername []), g\<lparr> seed := Some (randRead env) \<rparr>)"
    and "length (Password c) \<le> 72 \<Longrightarrow> Password c \<noteq> [] \<Longrightarrow> validateUsername (Username c) \<Longrightarrow>
         sint (MaxRoundDurMins c) < 0 \<or> sint (FinalityDelayMins c) < 0
           \<or> sint (ChannelFeerate c) < 0 \<or> sint (HostFeerate c) < 0 \<Longrightarrow>
           map_option Root (fst (ConfigInit env g c hostURL)) = Some errInvalidInput
           \<and> snd (ConfigInit env g c hostURL) = g\<lparr> seed := Some (randRead env) \<rparr>"
  using assms by (auto simp: ConfigInit_def Let_def Wrap_def)

lemma exFresh_sel [simp]:
  "seed exFresh = None" "\<not> isReadyConfigured (store exFresh)"
  by (simp_all add: exFresh_def isReadyConfigured_def emptyAgentDB_def zeroConfigDB_def)

lemma validateUsername_star: "CHR ''*'' \<in> set name \<Longrightarrow> \<not> validateUsername name"
  by (auto simp: validateUsername_def)

text \<open>
  The checks of \<^verbatim>\<open>ConfigInit\<close>. For an agent that is not configured yet and a Horizon
  URL that passes the test-network check, \<^verbatim>\<open>ConfigInit\<close> checks in this order: the
  password (at most 72 bytes, not empty), the user name, and the four numbers (not
  negative). A failed check returns its error (\<open>errInvalidPassword\<close>,
  \<open>errInvalidUsername\<close>, \<open>errInvalidInput\<close>). Whenever \<^verbatim>\<open>ConfigInit\<close> returns an error,
  the store is as it was; the seed in memory is not: after each of the failed checks it
  is what has been drawn.
\<close>

lemma ConfigInit_validation:
  assumes "ValidateTestnetURL env (HorizonURL c) = None" "\<not> isReadyConfigured (store g)"
  shows "(72 < length (Password c) \<or> Password c = [] \<longrightarrow>
            map_option Root (fst (ConfigInit env g c hostURL)) = Some errInvalidPassword
            \<and> snd (ConfigInit env g c hostURL) = g\<lparr> seed := Some (randRead env) \<rparr>)
       \<and> (length (Password c) \<le> 72 \<and> Password c \<noteq> [] \<and> \<not> validateUsername (Username c) \<longrightarrow>
            map_option Root (fst (ConfigInit env g c hostURL)) = Some errInvalidUsername
            \<and> snd (ConfigInit env g c hostURL) = g\<lparr> seed := Some (randRead env) \<rparr>)
       \<and> (length (Password c) \<le> 72 \<and> Password c \<noteq> [] \<and> validateUsername (Username c)
            \<and> (sint (MaxRoundDurMins c) < 0 \<or> sint (FinalityDelayMins c) < 0
               \<or> sint (ChannelFeerate c) < 0 \<or> sint (HostFeerate c) < 0) \<longrightarrow>
            map_option Root (fst (ConfigInit env g c hostURL)) = Some errInvalidInput
            \<and> snd (ConfigInit env g c hostURL) = g\<lparr> seed := Some (randRead env) \<rparr>)
       \<and> (fst (ConfigInit env g c hostURL) \<noteq> None \<longrightarrow>
            store (snd (ConfigInit env g c hostURL)) = store g)"
proof (intro conjI impI)
  assume "72 < length (Password c) \<or> Password c = []"
  from ConfigInit_checks(1) [OF assms this, of hostURL]
  show "map_option Root (fst (ConfigInit env g c hostURL)) = Some errInvalidPassword"
    and "snd (ConfigInit env g c hostURL) = g\<lparr> seed := Some (randRead env) \<rparr>"
    by (simp_all add: Wrap_def)
next
  assume h: "length (Password c) \<le> 72 \<and> Password c \<noteq> [] \<and> \<not> validateUsername (Username c)"
  then have "ConfigInit env g c hostURL = (Some (Error errInvalidUsername []), g\<lparr> seed := Some (randRead env) \<rparr>)"
    by (intro ConfigInit_checks(2) [OF assms]) auto
  then show "map_option Root (fst (ConfigInit env g c hostURL)) = Some errInvalidUsername"
    and "snd (ConfigInit env g c hostURL) = g\<lparr> seed := Some (randRead env) \<rparr>"
    by simp_all
next
  assume h: "length (Password c) \<le> 72 \<and> Password c \<noteq> [] \<and> validateUsername (Username c)
            \<and> (sint (MaxRoundDurMins c) < 0 \<or> sint (FinalityDelayMins c) < 0
               \<or> sint (ChannelFeerate c) < 0 \<or> sint (HostFeerate c) < 0)"
  then have "map_option Root (fst (ConfigInit env g c hostURL)) = Some errInvalidInput
           \<and> snd (ConfigInit env g c hostURL) = g\<lparr> seed := Some (randRead env) \<rparr>"
    by (intro ConfigInit_checks(3) [OF assms]) auto
  then show "map_option Root (fst (ConfigInit env g c hostURL)) = Some errInvalidInput"
    and "snd (ConfigInit env g c hostURL) = g\<lparr> seed := Some (randRead env) \<rparr>"
    by simp_all
next
  assume "fst (ConfigInit env g c hostURL) \<noteq> None"
  then show "store (snd (ConfigInit env g c hostURL)) = store g"
    by (rule ConfigInit_error_store)
qed



text \<open>
  The two rejections of \<^verbatim>\<open>ConfigEdit\<close> that come first: an edit that sets the user
  name or \<open>KeepAlive\<close>, and an edit in which nothing but the old password is set. Both
  leave the agent as it was.
\<close>

lemma ConfigEdit_invalid_edit:
  "Username c \<noteq> [] \<or> KeepAlive c \<noteq> None \<Longrightarrow>
   ConfigEdit env g c = (Some (Error errInvalidEdit []), g)"
  by (simp add: ConfigEdit_def)

lemma ConfigEdit_empty_edit:
  "c\<lparr> OldPassword := [] \<rparr> = zeroConfig \<Longrightarrow>
   ConfigEdit env g c = (Some (Error errEmptyConfigEdit []), g)"
proof -
  assume z: "c\<lparr> OldPassword := [] \<rparr> = zeroConfig"
  then have "Username (c\<lparr> OldPassword := [] \<rparr>) = Username zeroConfig"
    and "KeepAlive (c\<lparr> OldPassword := [] \<rparr>) = KeepAlive zeroConfig"
    by simp_all
  then have "Username c = []" "KeepAlive c = None"
    by (simp_all add: zeroConfig_def)
  with z show ?thesis
    by (simp add: ConfigEdit_def)
qed

text \<open>
  C6 at the input on which the code departs from it: an edit in which only \<open>Public\<close>
  is set, on a configured agent. No editable field is set, yet \<^verbatim>\<open>ConfigEdit\<close> returns
  no error and appends a Config update to the update log, which was empty.
\<close>

theorem ConfigEdit_public_only_is_accepted:
  "fst (ConfigEdit exEnv exConfigured (zeroConfig\<lparr> Public := True \<rparr>)) = None
   \<and> map upd_Type (db_Updates (Agent (store (snd (ConfigEdit exEnv exConfigured (zeroConfig\<lparr> Public := True \<rparr>))))))
       = [ConfigType]
   \<and> db_Updates (Agent (store exConfigured)) = []"
  by (simp add: ConfigEdit_def ConfigEdit_password_def ConfigEdit_write_def Let_def zeroConfig_def
        isReadyConfigured_def)

text \<open>
  What the evaluation of C6 comes to: the edit is not rejected, and the store is not
  what it was.
\<close>

theorem ConfigEdit_public_only_is_accepted_witness:
  "fst (ConfigEdit exEnv exConfigured (zeroConfig\<lparr> Public := True \<rparr>)) \<noteq> Some (Error errEmptyConfigEdit [])
   \<and> store (snd (ConfigEdit exEnv exConfigured (zeroConfig\<lparr> Public := True \<rparr>))) \<noteq> store exConfigured"
proof -
  have "db_Updates (Agent (store (snd (ConfigEdit exEnv exConfigured (zeroConfig\<lparr> Public := True \<rparr>)))))
          \<noteq> db_Updates (Agent (store exConfigured))"
    using ConfigEdit_public_only_is_accepted by auto
  then have "store (snd (ConfigEdit exEnv exConfigured (zeroConfig\<lparr> Public := True \<rparr>))) \<noteq> store exConfigured"
    by auto
  then show ?thesis
    using ConfigEdit_public_only_is_accepted by simp
qed

subsection \<open>Messages\<close>

lemma logInv_empty: "logInv \<lparr> LastSeqNum = 0, Msgs = [] \<rparr>"
  by (simp add: logInv_def)

lemma logInv_Add: "logInv l \<Longrightarrow> logInv (snd (Add msg l))"
  by (simp add: logInv_def Add_def Let_def)

lemma logInv_last:
  assumes "logInv l" "LastSeqNum l \<noteq> 0"
  shows "Msgs l \<noteq> []" "msg_MsgNum (last (Msgs l)) = LastSeqNum l"
proof -
  from assms show ne: "Msgs l \<noteq> []"
    by (auto simp: logInv_def)
  have "msg_MsgNum (last (Msgs l)) = last (map msg_MsgNum (Msgs l))"
    using ne by (simp add: last_map)
  also have "\<dots> = last (map of_nat [1..<Suc (length (Msgs l))])"
    using assms(1) by (simp add: logInv_def)
  also have "\<dots> = of_nat (length (Msgs l))"
  proof -
    from ne have "Suc 0 \<le> length (Msgs l)"
      by (cases "Msgs l") simp_all
    then show ?thesis by simp
  qed
  finally show "msg_MsgNum (last (Msgs l)) = LastSeqNum l"
    using assms(1) by (simp add: logInv_def)
qed

lemma putMessage_sel [simp]:
  "snd (snd (putMessage c msg (root, hooks))) = hooks @ [Broadcast]"
  "db_Messages (Agent (fst (snd (putMessage c msg (root, hooks))))) (ch_ID c) =
     Some (snd (Add msg (case db_Messages (Agent root) (ch_ID c) of
                           None \<Rightarrow> \<lparr> LastSeqNum = 0, Msgs = [] \<rparr> | Some l \<Rightarrow> l)))"
  "fst (putMessage c msg (root, hooks)) =
     fst (Add msg (case db_Messages (Agent root) (ch_ID c) of
                           None \<Rightarrow> \<lparr> LastSeqNum = 0, Msgs = [] \<rparr> | Some l \<Rightarrow> l))"
  by (simp_all add: putMessage_def Let_def split: prod.splits)

lemma putChannel_Messages [simp]:
  "db_Messages (Agent (putChannel i c root)) = db_Messages (Agent root)"
  by (simp add: putChannel_def)

lemma Add_LastSeqNum [simp]: "LastSeqNum (snd (Add msg l)) = LastSeqNum l + 1"
  by (simp add: Add_def Let_def)

lemma putMessage_logInv:
  assumes "\<forall>l. db_Messages (Agent root) (ch_ID c) = Some l \<longrightarrow> logInv l"
  shows "\<forall>l. db_Messages (Agent (fst (snd (putMessage c msg (root, hooks))))) (ch_ID c) = Some l
           \<longrightarrow> logInv l"
  using assms by (auto simp: logInv_Add logInv_empty split: option.splits)

lemma putMessage_lastMsgNum:
  "lastMsgNum (g\<lparr> store := fst (snd (putMessage c msg (store g, hooks))) \<rparr>) (ch_ID c)
     = lastMsgNum g (ch_ID c) + 1"
  by (simp add: lastMsgNum_def split: option.splits)

lemma addMsgTask_guest:
  assumes "ch_Role c = Guest"
  shows "addMsgTask c msg (root, hooks) =
     (None, (putChannel (ch_ID c) (c\<lparr> ch_LastMsgIndex := msg_MsgNum (fst (putMessage c msg (root, hooks))) \<rparr>)
               (fst (snd (putMessage c msg (root, hooks)))),
             hooks @ [Broadcast]))"
proof -
  obtain m r h where p: "putMessage c msg (root, hooks) = (m, (r, h))"
    by (cases "putMessage c msg (root, hooks)") auto
  from putMessage_sel(1) [of c msg root hooks] p have "h = hooks @ [Broadcast]"
    by simp
  with assms p show ?thesis
    by (simp add: addMsgTask_def Let_def)
qed

lemma db_Update_guest:
  assumes "ch_Role c = Guest"
  shows "\<exists>g'. db_Update (addMsgTask c msg) g = (None, g', [Commit (store g'), Run Broadcast])
            \<and> lastMsgNum g' (ch_ID c) = lastMsgNum g (ch_ID c) + 1"
proof -
  let ?root' = "putChannel (ch_ID c)
      (c\<lparr> ch_LastMsgIndex := msg_MsgNum (fst (putMessage c msg (store g, []))) \<rparr>)
      (fst (snd (putMessage c msg (store g, []))))"
  have "db_Update (addMsgTask c msg) g
          = (None, g\<lparr> store := ?root' \<rparr>, [Commit (store (g\<lparr> store := ?root' \<rparr>)), Run Broadcast])"
    by (simp add: db_Update_def addMsgTask_guest [OF assms])
  moreover have "lastMsgNum (g\<lparr> store := ?root' \<rparr>) (ch_ID c) = lastMsgNum g (ch_ID c) + 1"
    by (simp add: lastMsgNum_def split: option.splits)
  ultimately show ?thesis by blast
qed

lemma db_Update_rollback:
  "db_Update (\<lambda>tx. (Some e, snd (putMessage c msg tx))) g = (Some e, g, [])"
  by (simp add: db_Update_def)

lemma WaitMsg_Some:
  "WaitMsg snaps chanID i = Some (g, cancelled)
   \<Longrightarrow> (g, cancelled) \<in> set snaps \<and> (i \<le> lastMsgNum g chanID \<or> cancelled)"
proof (induction snaps)
  case Nil
  then show ?case by simp
next
  case (Cons s snaps)
  then show ?case
    by (cases s) (auto split: if_splits)
qed

lemma WaitMsg_first:
  "\<forall>(g0, c0) \<in> set before. lastMsgNum g0 chanID < i \<and> \<not> c0
   \<Longrightarrow> i \<le> lastMsgNum g chanID \<or> cancelled
   \<Longrightarrow> WaitMsg (before @ (g, cancelled) # later) chanID i = Some (g, cancelled)"
  by (induction before) auto

lemma WaitMsg_None:
  "WaitMsg snaps chanID i = None
     \<longleftrightarrow> (\<forall>(g0, c0) \<in> set snaps. lastMsgNum g0 chanID < i \<and> \<not> c0)"
  by (induction snaps) (auto split: if_splits)

lemma visible_message:
  assumes "i \<le> lastMsgNum g chanID" "0 < i"
    and "\<forall>l. db_Messages (Agent (store g)) chanID = Some l \<longrightarrow> logInv l"
  shows "\<exists>l. db_Messages (Agent (store g)) chanID = Some l \<and> Msgs l \<noteq> []
            \<and> i \<le> msg_MsgNum (last (Msgs l))"
proof (cases "db_Messages (Agent (store g)) chanID")
  case None
  with assms(1,2) show ?thesis
    by (simp add: lastMsgNum_def word_le_nat_alt word_less_nat_alt)
next
  case (Some l)
  with assms(1) have le: "i \<le> LastSeqNum l" by (simp add: lastMsgNum_def)
  with assms(2) have "LastSeqNum l \<noteq> 0"
    by (auto simp: word_le_nat_alt word_less_nat_alt)
  from logInv_last [OF _ this] assms(3) Some le show ?thesis
    by simp
qed

lemma exGuestChannel_sel [simp]:
  "ch_ID exGuestChannel = ''EA''" "ch_Role exGuestChannel = Guest"
  by (simp_all add: exGuestChannel_def exChannel_def)

lemma exFresh_Messages [simp]:
  "db_Messages (Agent (store exFresh)) = Map.empty"
  by (simp add: exFresh_def emptyAgentDB_def)

text \<open>
  C8, as the code has it. The first argument of \<^const>\<open>WaitMsg\<close> lists what the loop
  finds each time it tests its condition: the committed store and the context.

  \<^item> \<^verbatim>\<open>WaitMsg\<close> returns at the first test that finds the last sequence number of the
    channel to be at least \<open>i\<close>, or the context cancelled, and at no other: when it
    returns, that is what its last test has found; as long as no test finds it,
    \<^verbatim>\<open>WaitMsg\<close> waits.
  \<^item> For \<open>i\<close> above 0 and a context that is not cancelled, that sequence number means
    a message: when the log of the channel is numbered as \<^verbatim>\<open>Add\<close> numbers it, the log
    is there and its last message has a number of at least \<open>i\<close>. \<^verbatim>\<open>putMessage\<close> keeps
    the log numbered so.
  \<^item> \<^verbatim>\<open>putMessage\<close> does not broadcast: it adds the broadcast to the functions that
    are registered for the commit of its transaction. So the transaction in which a
    guest logs a message commits the store with the message, whose last sequence
    number is one more than before, and the broadcast comes after the commit; a
    transaction that logs a message and then fails commits nothing and broadcasts
    nothing.
\<close>

theorem WaitMsg_returns_on_committed_number_or_cancel:
  "(WaitMsg snaps chanID i = Some (g, cancelled)
      \<longrightarrow> (g, cancelled) \<in> set snaps \<and> (i \<le> lastMsgNum g chanID \<or> cancelled))
   \<and> ((\<forall>(g0, c0) \<in> set before. lastMsgNum g0 chanID < i \<and> \<not> c0)
        \<and> (i \<le> lastMsgNum g chanID \<or> cancelled)
      \<longrightarrow> WaitMsg (before @ (g, cancelled) # later) chanID i = Some (g, cancelled))
   \<and> (WaitMsg snaps chanID i = None
        \<longleftrightarrow> (\<forall>(g0, c0) \<in> set snaps. lastMsgNum g0 chanID < i \<and> \<not> c0))
   \<and> (WaitMsg snaps chanID i = Some (g, False) \<and> 0 < i
        \<and> (\<forall>l. db_Messages (Agent (store g)) chanID = Some l \<longrightarrow> logInv l)
      \<longrightarrow> (\<exists>l. db_Messages (Agent (store g)) chanID = Some l \<and> Msgs l \<noteq> []
               \<and> i \<le> msg_MsgNum (last (Msgs l))))
   \<and> ((\<forall>l. db_Messages (Agent root) (ch_ID c) = Some l \<longrightarrow> logInv l)
      \<longrightarrow> (\<forall>l. db_Messages (Agent (fst (snd (putMessage c msg (root, hooks))))) (ch_ID c) = Some l
             \<longrightarrow> logInv l))
   \<and> snd (snd (putMessage c msg (root, hooks))) = hooks @ [Broadcast]
   \<and> (ch_Role c = Guest
      \<longrightarrow> (\<exists>g'. db_Update (addMsgTask c msg) g0 = (None, g', [Commit (store g'), Run Broadcast])
               \<and> lastMsgNum g' (ch_ID c) = lastMsgNum g0 (ch_ID c) + 1))
   \<and> db_Update (\<lambda>tx. (Some e, snd (putMessage c msg tx))) g0 = (Some e, g0, [])"
proof (intro conjI impI)
  assume "WaitMsg snaps chanID i = Some (g, cancelled)"
  from WaitMsg_Some [OF this]
  show "(g, cancelled) \<in> set snaps" "i \<le> lastMsgNum g chanID \<or> cancelled"
    by simp_all
next
  assume "(\<forall>(g0, c0) \<in> set before. lastMsgNum g0 chanID < i \<and> \<not> c0)
        \<and> (i \<le> lastMsgNum g chanID \<or> cancelled)"
  then show "WaitMsg (before @ (g, cancelled) # later) chanID i = Some (g, cancelled)"
    using WaitMsg_first by blast
next
  show "WaitMsg snaps chanID i = None
        \<longleftrightarrow> (\<forall>(g0, c0) \<in> set snaps. lastMsgNum g0 chanID < i \<and> \<not> c0)"
    by (rule WaitMsg_None)
next
  assume h: "WaitMsg snaps chanID i = Some (g, False) \<and> 0 < i
        \<and> (\<forall>l. db_Messages (Agent (store g)) chanID = Some l \<longrightarrow> logInv l)"
  then have "i \<le> lastMsgNum g chanID"
    using WaitMsg_Some [of snaps chanID i g False] by simp
  with h show "\<exists>l. db_Messages (Agent (store g)) chanID = Some l \<and> Msgs l \<noteq> []
               \<and> i \<le> msg_MsgNum (last (Msgs l))"
    by (intro visible_message) simp_all
next
  assume "\<forall>l. db_Messages (Agent root) (ch_ID c) = Some l \<longrightarrow> logInv l"
  then show "\<forall>l. db_Messages (Agent (fst (snd (putMessage c msg (root, hooks))))) (ch_ID c) = Some l
             \<longrightarrow> logInv l"
    by (rule putMessage_logInv)
next
  show "snd (snd (putMessage c msg (root, hooks))) = hooks @ [Broadcast]"
    by simp
next
  assume "ch_Role c = Guest"
  then show "\<exists>g'. db_Update (addMsgTask c msg) g0 = (None, g', [Commit (store g'), Run Broadcast])
               \<and> lastMsgNum g' (ch_ID c) = lastMsgNum g0 (ch_ID c) + 1"
    by (rule db_Update_guest)
next
  show "db_Update (\<lambda>tx. (Some e, snd (putMessage c msg tx))) g0 = (Some e, g0, [])"
    by (rule db_Update_rollback)
qed

text \<open>
  A witness for C8: an agent without messages, in which a guest then logs a message
  for the channel \<open>EA\<close>. The transaction commits and then broadcasts; a call of
  \<^verbatim>\<open>WaitMsg\<close> for the message 1 that has found the store without messages waits, and
  returns when it finds the store that has been committed.
\<close>

theorem WaitMsg_returns_on_committed_number_or_cancel_witness:
  "(\<exists>g'. db_Update (addMsgTask exGuestChannel (exMessage ''EA'' 0 None)) exFresh
            = (None, g', [Commit (store g'), Run Broadcast])
        \<and> lastMsgNum g' ''EA'' = 1
        \<and> WaitMsg [(exFresh, False), (g', False)] ''EA'' 1 = Some (g', False))
   \<and> lastMsgNum exFresh ''EA'' = 0
   \<and> WaitMsg [(exFresh, False)] ''EA'' 1 = None"
proof -
  have 0: "lastMsgNum exFresh ''EA'' = 0"
    by (simp add: lastMsgNum_def)
  note WaitMsg_returns_on_committed_number_or_cancel [where c = exGuestChannel
      and msg = "exMessage ''EA'' 0 None" and ?g0.0 = exFresh, THEN conjunct2, THEN conjunct2,
      THEN conjunct2, THEN conjunct2, THEN conjunct2, THEN conjunct2, THEN conjunct1]
  then obtain g' where g': "db_Update (addMsgTask exGuestChannel (exMessage ''EA'' 0 None)) exFresh
            = (None, g', [Commit (store g'), Run Broadcast])"
      "lastMsgNum g' ''EA'' = lastMsgNum exFresh ''EA'' + 1"
    by auto
  from g'(2) 0 have 1: "lastMsgNum g' ''EA'' = 1" by simp
  have "WaitMsg [(exFresh, False), (g', False)] ''EA'' 1 = Some (g', False)"
    by (simp add: 0 1)
  moreover have "WaitMsg [(exFresh, False)] ''EA'' 1 = None"
    by (simp add: 0)
  ultimately show ?thesis using g'(1) 0 1 by blast
qed

text \<open>
  C8 as it is written fails for the number 0: on an agent that has no message for the
  channel \<open>EA\<close>, with a context that is not cancelled, \<^verbatim>\<open>WaitMsg\<close> returns at its
  first test.
\<close>

theorem WaitMsg_zero_returns_without_message:
  "WaitMsg [(exFresh, False)] ''EA'' 0 = Some (exFresh, False)
   \<and> db_Messages (Agent (store exFresh)) ''EA'' = None"
  by (simp add: lastMsgNum_def)

end
